theory Spec2Isabelle
  imports Main "HOL-Library.Sublist"
begin

section \<open>JavaScript values, errors and strings\<close>

text \<open>
  The library handles values of TypeScript type \<open>any\<close>: FHIR resources taken from request
  bodies and search results, and the claims of a decoded token. They are modelled as JSON
  values extended with \<open>undefined\<close>, the result of reading a property that is not there.
  An object is the list of its properties; \<open>map_of\<close> reads one. Numbers are the integers
  a double holds exactly and prints in plain decimal: fractions, magnitudes from \<open>2^53\<close>
  on (where doubles round) and from \<open>10^21\<close> on (printed in exponent form) are outside
  the model.
\<close>

datatype jsval =
    Undefined
  | JNull
  | JBool bool
  | JNum int
  | JStr string
  | JArr "jsval list"
  | JObj "(string \<times> jsval) list"

text \<open>
  Everything the source throws is a value: a \<open>TypeError\<close> of the runtime (a property read
  on \<open>null\<close> or \<open>undefined\<close>, a call of something that is not a function), a plain
  \<open>Error\<close> with its message, and the interface's \<open>UnauthorizedError\<close> with its message.
\<close>

datatype error = TypeError | Error string | UnauthorizedError string

text \<open>JavaScript truthiness: what \<open>if (v)\<close>, \<open>v && ...\<close> and \<open>!v\<close> test.\<close>

fun truthy :: "jsval \<Rightarrow> bool" where
  "truthy Undefined = False"
| "truthy JNull = False"
| "truthy (JBool b) = b"
| "truthy (JNum n) = (n \<noteq> 0)"
| "truthy (JStr s) = (s \<noteq> [])"
| "truthy (JArr xs) = True"
| "truthy (JObj kvs) = True"

text \<open>
  \<open>v[k]\<close> for a value that is neither \<open>null\<close> nor \<open>undefined\<close>. The keys the library
  reads are names of FHIR elements and of token claims, none of which is a built-in member
  of arrays, strings or \<open>Object.prototype\<close> (\<open>length\<close>, an index, \<open>constructor\<close>, ...): on
  anything but an object such a read gives \<open>undefined\<close>.
\<close>

fun getField :: "jsval \<Rightarrow> string \<Rightarrow> jsval" where
  "getField (JObj kvs) k = (case map_of kvs k of Some v \<Rightarrow> v | None \<Rightarrow> Undefined)"
| "getField v k = Undefined"

text \<open>\<open>v[k]\<close> in general: reading a property of \<open>null\<close> or \<open>undefined\<close> throws.\<close>

fun getProp :: "jsval \<Rightarrow> string \<Rightarrow> error + jsval" where
  "getProp Undefined k = Inl TypeError"
| "getProp JNull k = Inl TypeError"
| "getProp v k = Inr (getField v k)"

text \<open>\<open>s.split(c)\<close> for a one-character separator: never empty, \<open>''''.split(c)\<close> is \<open>['''']\<close>.\<close>

fun split_on :: "char \<Rightarrow> string \<Rightarrow> string list" where
  "split_on c [] = [[]]"
| "split_on c (x # xs) =
     (if x = c then [] # split_on c xs
      else (case split_on c xs of [] \<Rightarrow> [[x]] | p # ps \<Rightarrow> (x # p) # ps))"

text \<open>\<open>parts.join(sep)\<close>.\<close>

fun join_with :: "string \<Rightarrow> string list \<Rightarrow> string" where
  "join_with sep [] = []"
| "join_with sep [p] = p"
| "join_with sep (p # q # ps) = p @ sep @ join_with sep (q # ps)"

text \<open>\<open>s.startsWith(p)\<close>.\<close>

definition startsWith :: "string \<Rightarrow> string \<Rightarrow> bool" where
  "startsWith s p = prefix p s"

text \<open>Decimal digits of a natural number, and of an integer, as \<open>String(n)\<close> prints them.\<close>

fun string_of_nat :: "nat \<Rightarrow> string" where
  "string_of_nat n =
     (if n < 10 then [char_of (48 + n)]
      else string_of_nat (n div 10) @ [char_of (48 + n mod 10)])"

definition string_of_int :: "int \<Rightarrow> string" where
  "string_of_int i = (if i < 0 then CHR ''-'' # string_of_nat (nat (- i)) else string_of_nat (nat i))"

text \<open>
  The string a template literal \<open>`${v}`\<close> puts in for a value: a string as it is, the
  names of \<open>undefined\<close>, \<open>null\<close> and the booleans, a number in decimal, an array as its
  elements joined by commas (\<open>null\<close> and \<open>undefined\<close> elements empty), an object as
  \<open>[object Object]\<close>.
\<close>

fun toString :: "jsval \<Rightarrow> string" where
  "toString Undefined = ''undefined''"
| "toString JNull = ''null''"
| "toString (JBool b) = (if b then ''true'' else ''false'')"
| "toString (JNum n) = string_of_int n"
| "toString (JStr s) = s"
| "toString (JArr xs) =
     join_with '','' (map (\<lambda>x. if x = Undefined \<or> x = JNull then [] else toString x) xs)"
| "toString (JObj kvs) = ''[object Object]''"

text \<open>
  \<open>a === s\<close> for a value \<open>a\<close> and a string \<open>s\<close>: strict equality, no coercion.
\<close>

definition strictEqStr :: "jsval \<Rightarrow> string \<Rightarrow> bool" where
  "strictEqStr a s = (a = JStr s)"

section \<open>smartAuthorizationHelper\<close>

subsection \<open>hasSystemAccess\<close>

text \<open>
  \<open>usableScopes.some((scope) => scope.startsWith('system/*') ||
  scope.startsWith(`system/${resourceType}`))\<close>
\<close>

definition hasSystemAccess :: "string list \<Rightarrow> string \<Rightarrow> bool" where
  "hasSystemAccess usableScopes resourceType =
     list_ex (\<lambda>scope. startsWith scope ''system/*'' \<or> startsWith scope (''system/'' @ resourceType))
       usableScopes"

subsection \<open>Parsed identities: getFhirUser, getFhirResource\<close>

text \<open>
  \<open>FhirResource\<close> of smartConfig: the parsed form \<open>{hostname, resourceType, id}\<close> of a
  reference string.
\<close>

record FhirResource =
  hostname :: string
  resourceType :: string
  id' :: string

definition alnum :: "char \<Rightarrow> bool" where
  "alnum c = (c \<in> set ''ABCDEFGHIJKLMNOPQRSTUVWXYZabcdefghijklmnopqrstuvwxyz0123456789'')"

text \<open>The class \<open>[A-Za-z0-9\-\\.:%$_/]\<close> of the hostname group.\<close>

definition hostChar :: "char \<Rightarrow> bool" where
  "hostChar c = (alnum c \<or> c \<in> set ''-.:%$_/'' \<or> c = CHR 0x5C)"

text \<open>The class \<open>[A-Za-z0-9\-.]\<close> of the id group.\<close>

definition idChar :: "char \<Rightarrow> bool" where
  "idChar c = (alnum c \<or> c \<in> set ''-.'')"

text \<open>The group \<open>(http|https):\/\/([A-Za-z0-9\-\\.:%$_/])+\<close>.\<close>

definition isHostname :: "string \<Rightarrow> bool" where
  "isHostname h =
     ((startsWith h ''https://'' \<and> drop 8 h \<noteq> [] \<and> list_all hostChar (drop 8 h)) \<or>
      (startsWith h ''http://'' \<and> drop 7 h \<noteq> [] \<and> list_all hostChar (drop 7 h)))"

text \<open>The group \<open>[A-Za-z0-9\-.]+\<close>.\<close>

definition isId :: "string \<Rightarrow> bool" where
  "isId s = (s \<noteq> [] \<and> list_all idChar s)"

text \<open>The group \<open>[A-Z][a-zA-Z]+\<close>.\<close>

definition isTypeName :: "string \<Rightarrow> bool" where
  "isTypeName s =
     (case s of
        [] \<Rightarrow> False
      | c # cs \<Rightarrow> c \<in> set ''ABCDEFGHIJKLMNOPQRSTUVWXYZ'' \<and> cs \<noteq> [] \<and>
          list_all (\<lambda>d. d \<in> set ''ABCDEFGHIJKLMNOPQRSTUVWXYZabcdefghijklmnopqrstuvwxyz'') cs)"

text \<open>
  Both regular expressions are anchored and end in \<open>/resourceType/id\<close>, where neither
  group can hold a slash: a match splits the string at its last two slashes, so the
  groups are read off the pieces \<open>value.split('/')\<close> gives.

  \<open>FHIR_USER_REGEX\<close>: hostname, then one of the four person-like types, then the id.
\<close>

definition matchFhirUser :: "string \<Rightarrow> FhirResource option" where
  "matchFhirUser s =
     (let parts = split_on CHR ''/'' s; n = length parts in
      if n < 3 then None
      else
        let h = join_with ''/'' (take (n - 2) parts); t = parts ! (n - 2); i = parts ! (n - 1) in
        if isHostname h \<and> t \<in> set [''Person'', ''Practitioner'', ''RelatedPerson'', ''Patient''] \<and> isId i
        then Some \<lparr>hostname = h, resourceType = t, id' = i\<rparr>
        else None)"

text \<open>
  \<open>FHIR_RESOURCE_REGEX\<close>: the hostname is optional (the group is then \<open>undefined\<close>,
  here \<open>None\<close>), and any type name \<open>[A-Z][a-zA-Z]+\<close> is accepted.
\<close>

definition matchFhirResource :: "string \<Rightarrow> (string option \<times> string \<times> string) option" where
  "matchFhirResource s =
     (let parts = split_on CHR ''/'' s; n = length parts in
      if n < 2 then None
      else
        let t = parts ! (n - 2); i = parts ! (n - 1) in
        if \<not> (isTypeName t \<and> isId i) then None
        else if n = 2 then Some (None, t, i)
        else
          let h = join_with ''/'' (take (n - 2) parts) in
          if isHostname h then Some (Some h, t, i) else None)"

text \<open>
  \<open>getFhirUser(fhirUserValue)\<close>. The callers pass a token claim of any type:
  \<open>fhirUserValue.match\<close> throws a \<open>TypeError\<close> unless the value is a string.
\<close>

definition getFhirUser :: "jsval \<Rightarrow> error + FhirResource" where
  "getFhirUser fhirUserValue =
     (case fhirUserValue of
        JStr s \<Rightarrow>
          (case matchFhirUser s of
             Some r \<Rightarrow> Inr r
           | None \<Rightarrow> Inl (UnauthorizedError ''Requester's identity is in the incorrect format''))
      | _ \<Rightarrow> Inl TypeError)"

text \<open>\<open>getFhirResource(resourceValue, defaultHostname)\<close>.\<close>

definition getFhirResource :: "jsval \<Rightarrow> string \<Rightarrow> error + FhirResource" where
  "getFhirResource resourceValue defaultHostname =
     (case resourceValue of
        JStr s \<Rightarrow>
          (case matchFhirResource s of
             Some (h, t, i) \<Rightarrow>
               Inr \<lparr>hostname = (case h of Some x \<Rightarrow> x | None \<Rightarrow> defaultHostname),
                    resourceType = t, id' = i\<rparr>
           | None \<Rightarrow> Inl (UnauthorizedError ''Resource is in the incorrect format''))
      | _ \<Rightarrow> Inl TypeError)"

subsection \<open>isRequestorReferenced\<close>

text \<open>
  The reference matrices are JSON files of the package, not source code:
  \<open>matrix[sourceType][requestorType]\<close> is a list of dot-paths. Both are parameters
  of the model.
\<close>

type_synonym matrix = "(string \<times> (string \<times> string list) list) list"

record matrices =
  matrix_v4_0_1 :: matrix
  matrix_v3_0_1 :: matrix

text \<open>
  \<open>possiblePaths\<close>: \<open>matrix[sourceResourceType][requestorResourceType]\<close> when both
  lookups are truthy, else \<open>[]\<close>. A key that is not a string is converted to one.
  The lookups are of the matrix's own entries: a type name that is a member of
  \<open>Object.prototype\<close> (\<open>toString\<close>, \<open>constructor\<close>, ...), for which the source finds
  the inherited member instead, is outside the model, as it is for \<open>getField\<close>.
\<close>

definition possiblePaths :: "matrix \<Rightarrow> jsval \<Rightarrow> string \<Rightarrow> string list" where
  "possiblePaths m sourceResourceType requestorResourceType =
     (case map_of m (toString sourceResourceType) of
        None \<Rightarrow> []
      | Some row \<Rightarrow> (case map_of row requestorResourceType of None \<Rightarrow> [] | Some ps \<Rightarrow> ps))"

text \<open>
  \<open>tempResource.forEach((x) => { nextQueue.push(x[pathComponents[i]]); })\<close>: the read
  \<open>x[...]\<close> is not guarded, it throws on a \<open>null\<close> or \<open>undefined\<close> element.
\<close>

fun pushEach :: "string \<Rightarrow> jsval list \<Rightarrow> jsval list \<Rightarrow> error + jsval list" where
  "pushEach seg [] nextQueue = Inr nextQueue"
| "pushEach seg (x # xs) nextQueue =
     (case getProp x seg of
        Inl e \<Rightarrow> Inl e
      | Inr v \<Rightarrow> pushEach seg xs (nextQueue @ [v]))"

text \<open>
  The \<open>while (rootQueue.length > 0)\<close> loop of one layer: each item is shifted off the
  root queue; a falsy item is dropped, an array has the segment read off every element,
  anything else has it read off itself.
\<close>

fun drainQueue :: "string \<Rightarrow> jsval list \<Rightarrow> jsval list \<Rightarrow> error + jsval list" where
  "drainQueue seg [] nextQueue = Inr nextQueue"
| "drainQueue seg (tempResource # rootQueue) nextQueue =
     (if truthy tempResource then
        (case tempResource of
           JArr xs \<Rightarrow>
             (case pushEach seg xs nextQueue of
                Inl e \<Rightarrow> Inl e
              | Inr q \<Rightarrow> drainQueue seg rootQueue q)
         | _ \<Rightarrow>
             (case getProp tempResource seg of
                Inl e \<Rightarrow> Inl e
              | Inr v \<Rightarrow> drainQueue seg rootQueue (nextQueue @ [v])))
      else drainQueue seg rootQueue nextQueue)"

text \<open>The \<open>for\<close> loop over the path components after the first: one layer per component.\<close>

fun walkPath :: "string list \<Rightarrow> jsval list \<Rightarrow> error + jsval list" where
  "walkPath [] nextQueue = Inr nextQueue"
| "walkPath (seg # segs) nextQueue =
     (case drainQueue seg nextQueue [] of
        Inl e \<Rightarrow> Inl e
      | Inr q \<Rightarrow> walkPath segs q)"

text \<open>\<open>nextQueue.flat()\<close>: one level of arrays is spliced in.\<close>

definition flat :: "jsval list \<Rightarrow> jsval list" where
  "flat q = concat (map (\<lambda>v. case v of JArr xs \<Rightarrow> xs | _ \<Rightarrow> [v]) q)"

text \<open>\<open>x && x.reference && requestorIds.includes(x.reference)\<close>, as a truth value.\<close>

definition referenceIncluded :: "string list \<Rightarrow> jsval \<Rightarrow> bool" where
  "referenceIncluded requestorIds x =
     (truthy x \<and> truthy (getField x ''reference'') \<and>
      (case getField x ''reference'' of JStr r \<Rightarrow> r \<in> set requestorIds | _ \<Rightarrow> False))"

text \<open>The callback of \<open>possiblePaths.some\<close>: one path, walked from the source resource.\<close>

definition pathMatches :: "string list \<Rightarrow> jsval \<Rightarrow> string \<Rightarrow> error + bool" where
  "pathMatches requestorIds sourceResource path =
     (case split_on CHR ''.'' path of
        [] \<Rightarrow> Inr False
      | p0 # ps \<Rightarrow>
          (case getProp sourceResource p0 of
             Inl e \<Rightarrow> Inl e
           | Inr v \<Rightarrow>
               (case walkPath ps [v] of
                  Inl e \<Rightarrow> Inl e
                | Inr q \<Rightarrow> Inr (list_ex (referenceIncluded requestorIds) (flat q)))))"

text \<open>\<open>xs.some(f)\<close> for a callback that may throw: it stops at the first \<open>true\<close>.\<close>

fun someE :: "('a \<Rightarrow> error + bool) \<Rightarrow> 'a list \<Rightarrow> error + bool" where
  "someE f [] = Inr False"
| "someE f (x # xs) =
     (case f x of
        Inl e \<Rightarrow> Inl e
      | Inr b \<Rightarrow> if b then Inr True else someE f xs)"

definition isRequestorReferenced ::
  "matrices \<Rightarrow> string list \<Rightarrow> string \<Rightarrow> jsval \<Rightarrow> string \<Rightarrow> error + bool" where
  "isRequestorReferenced ms requestorIds requestorResourceType sourceResource fhirVersion =
     (case getProp sourceResource ''resourceType'' of
        Inl e \<Rightarrow> Inl e
      | Inr sourceResourceType \<Rightarrow>
          if fhirVersion = ''4.0.1'' then
            someE (pathMatches requestorIds sourceResource)
              (possiblePaths (matrix_v4_0_1 ms) sourceResourceType requestorResourceType)
          else if fhirVersion = ''3.0.1'' then
            someE (pathMatches requestorIds sourceResource)
              (possiblePaths (matrix_v3_0_1 ms) sourceResourceType requestorResourceType)
          else Inl (Error ''Unsupported FHIR version detected''))"

subsection \<open>hasReferenceToResource, isFhirUserAdmin, hasAccessToResource\<close>

text \<open>\<open>a || b\<close> on results that may be thrown errors: \<open>b\<close> counts only when \<open>a\<close> is false.\<close>

definition orElse :: "error + bool \<Rightarrow> error + bool \<Rightarrow> error + bool" where
  "orElse a b = (case a of Inl e \<Rightarrow> Inl e | Inr x \<Rightarrow> if x then Inr True else b)"

text \<open>
  \<open>resourceType === sourceResource.resourceType && id === sourceResource.id\<close>: the reads
  throw when the source resource is \<open>null\<close> or \<open>undefined\<close>.
\<close>

definition sameTypeAndId :: "FhirResource \<Rightarrow> jsval \<Rightarrow> error + bool" where
  "sameTypeAndId requestorId sourceResource =
     (case getProp sourceResource ''resourceType'' of
        Inl e \<Rightarrow> Inl e
      | Inr t \<Rightarrow>
          if strictEqStr t (resourceType requestorId) then
            (case getProp sourceResource ''id'' of
               Inl e \<Rightarrow> Inl e
             | Inr i \<Rightarrow> Inr (strictEqStr i (id' requestorId)))
          else Inr False)"

definition hasReferenceToResource ::
  "matrices \<Rightarrow> FhirResource \<Rightarrow> jsval \<Rightarrow> string \<Rightarrow> string \<Rightarrow> error + bool" where
  "hasReferenceToResource ms requestorId sourceResource apiUrl fhirVersion =
     (if hostname requestorId \<noteq> apiUrl then
        isRequestorReferenced ms
          [hostname requestorId @ ''/'' @ resourceType requestorId @ ''/'' @ id' requestorId]
          (resourceType requestorId) sourceResource fhirVersion
      else
        orElse (sameTypeAndId requestorId sourceResource)
          (isRequestorReferenced ms
             [resourceType requestorId @ ''/'' @ id' requestorId,
              hostname requestorId @ ''/'' @ resourceType requestorId @ ''/'' @ id' requestorId]
             (resourceType requestorId) sourceResource fhirVersion))"

definition isFhirUserAdmin :: "FhirResource \<Rightarrow> string list \<Rightarrow> string \<Rightarrow> bool" where
  "isFhirUserAdmin fhirUser adminAccessTypes apiUrl =
     (apiUrl = hostname fhirUser \<and> resourceType fhirUser \<in> set adminAccessTypes)"

text \<open>
  \<open>hasAccessToResource\<close>: the three channels joined by \<open>||\<close>; an absent identity
  (\<open>undefined\<close>, here \<open>None\<close>) makes its channel falsy. The result is the truth value of
  what the source returns.
\<close>

definition hasAccessToResource ::
  "matrices \<Rightarrow> FhirResource option \<Rightarrow> FhirResource option \<Rightarrow> jsval \<Rightarrow> string list \<Rightarrow>
   string list \<Rightarrow> string \<Rightarrow> string \<Rightarrow> error + bool" where
  "hasAccessToResource ms fhirUserObject patientLaunchContext sourceResource usableScopes
     adminAccessTypes apiUrl fhirVersion =
     (case getProp sourceResource ''resourceType'' of
        Inl e \<Rightarrow> Inl e
      | Inr t \<Rightarrow>
          orElse (Inr (hasSystemAccess usableScopes (toString t)))
            (orElse
               (case fhirUserObject of
                  None \<Rightarrow> Inr False
                | Some fu \<Rightarrow>
                    orElse (Inr (isFhirUserAdmin fu adminAccessTypes apiUrl))
                      (hasReferenceToResource ms fu sourceResource apiUrl fhirVersion))
               (case patientLaunchContext of
                  None \<Rightarrow> Inr False
                | Some pc \<Rightarrow> hasReferenceToResource ms pc sourceResource apiUrl fhirVersion)))"

subsection \<open>The matcher as the specification words it\<close>

text \<open>
  Section 4.4 of the specification: start from the source resource and descend one
  field per layer; where a value of the layer is an array, every element is expanded
  into the next layer, otherwise the value is descended directly. After the last segment
  the leaves are collected, arrays among them flattened; a leaf matches when it has a
  \<open>reference\<close> field whose value is one of the candidates; one matching path of the
  matrix entry is enough. These definitions follow those words, not the source; they are
  what \<open>isRequestorReferenced\<close> is compared with.
\<close>

definition stepItem :: "string \<Rightarrow> jsval \<Rightarrow> jsval list" where
  "stepItem seg v = (case v of JArr xs \<Rightarrow> map (\<lambda>x. getField x seg) xs | _ \<Rightarrow> [getField v seg])"

definition spec_nextLayer :: "string \<Rightarrow> jsval list \<Rightarrow> jsval list" where
  "spec_nextLayer seg layer = concat (map (stepItem seg) layer)"

fun spec_expand :: "string list \<Rightarrow> jsval list \<Rightarrow> jsval list" where
  "spec_expand [] layer = layer"
| "spec_expand (seg # segs) layer = spec_expand segs (spec_nextLayer seg layer)"

definition spec_leaves :: "jsval \<Rightarrow> string \<Rightarrow> jsval list" where
  "spec_leaves sourceResource path =
     concat (map (\<lambda>v. case v of JArr xs \<Rightarrow> xs | _ \<Rightarrow> [v])
       (spec_expand (split_on CHR ''.'' path) [sourceResource]))"

definition spec_leafMatches :: "string list \<Rightarrow> jsval \<Rightarrow> bool" where
  "spec_leafMatches candidates leaf =
     (case getField leaf ''reference'' of JStr r \<Rightarrow> r \<in> set candidates | _ \<Rightarrow> False)"

definition spec_isReferenced :: "matrix \<Rightarrow> string list \<Rightarrow> string \<Rightarrow> jsval \<Rightarrow> bool" where
  "spec_isReferenced m candidates requestorResourceType sourceResource =
     list_ex (\<lambda>path. list_ex (spec_leafMatches candidates) (spec_leaves sourceResource path))
       (possiblePaths m (getField sourceResource ''resourceType'') requestorResourceType)"

text \<open>
  A value none of whose arrays, at any depth, holds a \<open>null\<close> or \<open>undefined\<close> element.
\<close>

fun noNullElements :: "jsval \<Rightarrow> bool" where
  "noNullElements (JArr xs) = list_all (\<lambda>x. x \<noteq> Undefined \<and> x \<noteq> JNull \<and> noNullElements x) xs"
| "noNullElements (JObj kvs) = list_all (\<lambda>kv. noNullElements (snd kv)) kvs"
| "noNullElements v = True"

subsection \<open>Token decoding and verification\<close>

text \<open>
  The token libraries are outside the repository; what the source calls of them is a
  parameter of the model. \<open>jsonwebtoken\<close>'s payload is its \<open>JwtPayload | string\<close>: the
  claims object, or the raw string when the payload is not a JSON object.
\<close>

datatype payload = PayloadString string | PayloadObject "(string \<times> jsval) list"

record Jwt =
  jwt_header :: jsval
  jwt_payload :: payload

text \<open>What \<open>decode(token, {complete: true})\<close> may return, by its declared type.\<close>

datatype decodeResult = DecodedNull | DecodedString string | DecodedJwt Jwt

text \<open>\<open>expectedAudValue: string | RegExp\<close>; a regular expression is the set of strings it accepts.\<close>

datatype audValue = AudString string | AudRegExp "string \<Rightarrow> bool"

text \<open>
  \<open>jwt_decode\<close> is \<open>jsonwebtoken.decode\<close>; \<open>jwt_verify token key aud iss\<close> is
  \<open>jsonwebtoken.verify\<close> with the audience and issuer options; \<open>getSigningKeyAsync uri kid\<close>
  is the key the jwks client made for \<open>uri\<close> resolves \<open>kid\<close> to (its public key);
  \<open>axios_post url body clientId clientSecret\<close> is the \<open>data\<close> of the response to the
  introspection call made with Basic authentication; \<open>lodash_get\<close> is lodash's \<open>get\<close>;
  \<open>coercedMinus v d\<close> is the runtime's \<open>v - d\<close> for a \<open>v\<close> that is not a number.
\<close>

record libraries =
  jwt_decode :: "string \<Rightarrow> decodeResult"
  jwt_verify :: "string \<Rightarrow> string \<Rightarrow> audValue \<Rightarrow> string \<Rightarrow> error + payload"
  getSigningKeyAsync :: "string \<Rightarrow> jsval \<Rightarrow> error + string"
  axios_post :: "string \<Rightarrow> string \<Rightarrow> string \<Rightarrow> string \<Rightarrow> error + jsval"
  lodash_get :: "payload \<Rightarrow> string \<Rightarrow> jsval"
  coercedMinus :: "jsval \<Rightarrow> int \<Rightarrow> jsval"

definition GENERIC_ERR_MESSAGE :: string where
  "GENERIC_ERR_MESSAGE = ''Invalid access token''"

definition payloadValue :: "payload \<Rightarrow> jsval" where
  "payloadValue p = (case p of PayloadString s \<Rightarrow> JStr s | PayloadObject kvs \<Rightarrow> JObj kvs)"

text \<open>
  \<open>audArray\<close>: empty for a falsy \<open>aud\<close>, the one string, or the claim itself; \<open>.some\<close>
  then throws unless the claim is an array.
\<close>

definition audArray :: "jsval \<Rightarrow> error + jsval list" where
  "audArray aud =
     (if truthy aud then
        (case aud of
           JStr s \<Rightarrow> Inr [JStr s]
         | JArr xs \<Rightarrow> Inr xs
         | _ \<Rightarrow> Inl TypeError)
      else Inr [])"

definition audienceMatches :: "audValue \<Rightarrow> jsval \<Rightarrow> bool" where
  "audienceMatches expectedAudValue audience =
     (case expectedAudValue of
        AudString e \<Rightarrow> strictEqStr audience e
      | AudRegExp re \<Rightarrow> re (toString audience))"

definition decodeJwtToken :: "libraries \<Rightarrow> string \<Rightarrow> audValue \<Rightarrow> string \<Rightarrow> error + Jwt" where
  "decodeJwtToken libs token expectedAudValue expectedIssValue =
     (case jwt_decode libs token of
        DecodedNull \<Rightarrow> Inl (UnauthorizedError GENERIC_ERR_MESSAGE)
      | DecodedString s \<Rightarrow> Inl (UnauthorizedError GENERIC_ERR_MESSAGE)
      | DecodedJwt decodedAccessToken \<Rightarrow>
          let aud = getField (payloadValue (jwt_payload decodedAccessToken)) ''aud'';
              iss = getField (payloadValue (jwt_payload decodedAccessToken)) ''iss''
          in
          if \<not> strictEqStr iss expectedIssValue then Inl (UnauthorizedError GENERIC_ERR_MESSAGE)
          else
            (case audArray aud of
               Inl e \<Rightarrow> Inl e
             | Inr auds \<Rightarrow>
                 if list_ex (audienceMatches expectedAudValue) auds then Inr decodedAccessToken
                 else Inl (UnauthorizedError GENERIC_ERR_MESSAGE)))"

text \<open>
  \<open>verifyJwtToken\<close>: \<open>client\<close> is the jwks client, named by the endpoint it was made for.
  Whatever the key lookup or the verification throws is caught and replaced.
\<close>

definition verifyJwtToken ::
  "libraries \<Rightarrow> string \<Rightarrow> audValue \<Rightarrow> string \<Rightarrow> string \<Rightarrow> error + payload" where
  "verifyJwtToken libs token expectedAudValue expectedIssValue client =
     (case decodeJwtToken libs token expectedAudValue expectedIssValue of
        Inl e \<Rightarrow> Inl e
      | Inr decodedAccessToken \<Rightarrow>
          (case getProp (jwt_header decodedAccessToken) ''kid'' of
             Inl e \<Rightarrow> Inl e
           | Inr kid \<Rightarrow>
               if \<not> truthy kid then Inl (UnauthorizedError GENERIC_ERR_MESSAGE)
               else
                 (case getSigningKeyAsync libs client kid of
                    Inl e \<Rightarrow> Inl (UnauthorizedError GENERIC_ERR_MESSAGE)
                  | Inr key \<Rightarrow>
                      (case jwt_verify libs token key expectedAudValue expectedIssValue of
                         Inl e \<Rightarrow> Inl (UnauthorizedError GENERIC_ERR_MESSAGE)
                       | Inr p \<Rightarrow> Inr p))))"

record IntrospectionOptions =
  introspectUrl :: string
  clientId :: string
  clientSecret :: string

text \<open>
  \<open>introspectJwtToken\<close>: everything thrown inside the \<open>try\<close> (by the call, by reading
  \<open>response.data.active\<close>, or the denial for an inactive token) is caught and replaced.
\<close>

definition introspectJwtToken ::
  "libraries \<Rightarrow> string \<Rightarrow> audValue \<Rightarrow> string \<Rightarrow> IntrospectionOptions \<Rightarrow> error + payload" where
  "introspectJwtToken libs token expectedAudValue expectedIssValue introspectionOptions =
     (case decodeJwtToken libs token expectedAudValue expectedIssValue of
        Inl e \<Rightarrow> Inl e
      | Inr decodedAccessToken \<Rightarrow>
          (case axios_post libs (introspectUrl introspectionOptions) (''token='' @ token)
                  (clientId introspectionOptions) (clientSecret introspectionOptions) of
             Inl e \<Rightarrow> Inl (UnauthorizedError GENERIC_ERR_MESSAGE)
           | Inr data \<Rightarrow>
               (case getProp data ''active'' of
                  Inl e \<Rightarrow> Inl (UnauthorizedError GENERIC_ERR_MESSAGE)
                | Inr active \<Rightarrow>
                    if \<not> truthy active then Inl (UnauthorizedError GENERIC_ERR_MESSAGE)
                    else Inr (jwt_payload decodedAccessToken))))"

section \<open>smartHandler\<close>

text \<open>
  \<open>smartScopeHelper\<close> is a module of the package whose source is not among the files
  modelled. What the handler calls of it is a parameter: the scope functions with the
  arguments the handler passes, in the order it passes them, and the list of search
  operations. \<open>'r\<close> is the type of the configured \<open>scopeRule\<close>.
\<close>

record 'r smartScopeHelper =
  getScopes :: "jsval \<Rightarrow> string list"
  filterOutUnusableScope ::
    "string list \<Rightarrow> 'r \<Rightarrow> string \<Rightarrow> bool \<Rightarrow> string option \<Rightarrow> jsval \<Rightarrow> jsval \<Rightarrow> jsval \<Rightarrow> string list"
  isScopeSufficient :: "string \<Rightarrow> 'r \<Rightarrow> string \<Rightarrow> bool \<Rightarrow> string \<Rightarrow> bool"
  SEARCH_OPERATIONS :: "string list"

record 'r SMARTConfig =
  version :: int
  scopeKey :: string
  scopeRule :: 'r
  expectedAudValue :: audValue
  expectedIssValue :: string
  fhirUserClaimPath :: string
  launchContextPathPrefix :: string
  jwksEndpoint :: "string option"
  tokenIntrospection :: "IntrospectionOptions option"

text \<open>
  The fields of a \<open>SMARTHandler\<close>. \<open>jwksClient\<close> is the client the constructor makes
  (named by its endpoint), or \<open>None\<close>.
\<close>

record 'r SMARTHandler =
  config :: "'r SMARTConfig"
  apiUrl :: string
  fhirVersion :: string
  adminAccessTypes :: "string list"
  bulkDataAccessTypes :: "string list"
  isUserScopeAllowedForSystemExport :: bool
  jwksClient :: "string option"

text \<open>The constructor, its defaults written out by the caller.\<close>

definition newSMARTHandler ::
  "'r SMARTConfig \<Rightarrow> string \<Rightarrow> string \<Rightarrow> string list \<Rightarrow> string list \<Rightarrow> bool \<Rightarrow> error + 'r SMARTHandler" where
  "newSMARTHandler cfg url ver adminTypes bulkTypes userScopeForExport =
     (if version cfg \<noteq> 1 then
        Inl (Error ''Authorization configuration version does not match handler version'')
      else
        Inr \<lparr>config = cfg, apiUrl = url, fhirVersion = ver, adminAccessTypes = adminTypes,
             bulkDataAccessTypes = bulkTypes, isUserScopeAllowedForSystemExport = userScopeForExport,
             jwksClient =
               (case jwksEndpoint cfg of
                  Some uri \<Rightarrow> if tokenIntrospection cfg = None then Some uri else None
                | None \<Rightarrow> None)\<rparr>)"

text \<open>
  The identity as the operations after verification read it: the scope lists and the
  two optional parsed identities.
\<close>

record UserIdentity =
  scopes :: "string list"
  usableScopes :: "string list"
  fhirUserObject :: "FhirResource option"
  patientLaunchContext :: "FhirResource option"

subsection \<open>verifyAccessToken\<close>

text \<open>
  \<open>obj[k] = v\<close> on the list of an object's properties: an existing property keeps its
  place, a new one goes last.
\<close>

fun setProperty :: "(string \<times> jsval) list \<Rightarrow> string \<Rightarrow> jsval \<Rightarrow> (string \<times> jsval) list" where
  "setProperty [] k v = [(k, v)]"
| "setProperty ((k', v') # kvs) k v =
     (if k' = k then (k, v) # kvs else (k', v') # setProperty kvs k v)"

text \<open>
  An assignment \<open>userIdentity.k = v\<close>: the file is in strict mode, where creating a
  property on a string throws.
\<close>

definition assign :: "payload \<Rightarrow> string \<Rightarrow> jsval \<Rightarrow> error + payload" where
  "assign userIdentity k v =
     (case userIdentity of
        PayloadString s \<Rightarrow> Inl TypeError
      | PayloadObject kvs \<Rightarrow> Inr (PayloadObject (setProperty kvs k v)))"

text \<open>
  \<open>clone\<close> of the interface package is a JSON round trip; the decoded claims are JSON,
  which it returns as they are.
\<close>

definition clone :: "payload \<Rightarrow> payload" where
  "clone p = p"

definition fhirResourceValue :: "FhirResource \<Rightarrow> jsval" where
  "fhirResourceValue r =
     JObj [(''hostname'', JStr (hostname r)), (''resourceType'', JStr (resourceType r)),
           (''id'', JStr (id' r))]"

text \<open>The token check the configuration selects.\<close>

definition decodeToken :: "libraries \<Rightarrow> 'r SMARTHandler \<Rightarrow> string \<Rightarrow> error + payload" where
  "decodeToken libs h accessToken =
     (case tokenIntrospection (config h) of
        Some opts \<Rightarrow>
          introspectJwtToken libs accessToken (expectedAudValue (config h))
            (expectedIssValue (config h)) opts
      | None \<Rightarrow>
          (case jwksClient h of
             Some client \<Rightarrow>
               verifyJwtToken libs accessToken (expectedAudValue (config h))
                 (expectedIssValue (config h)) client
           | None \<Rightarrow>
               Inl (Error (''Authorization configuration not properly set up. Either '' @
                 [CHR 0x27] @ ''tokenIntrospection'' @ [CHR 0x27] @ '' or '' @
                 [CHR 0x27] @ ''jwksEndpoint'' @ [CHR 0x27] @ '' must be present''))))"

text \<open>The \<open>if (request.bulkDataAuth)\<close> block: it throws or falls through.\<close>

definition bulkDataCheck ::
  "'r SMARTHandler \<Rightarrow> jsval \<Rightarrow> payload \<Rightarrow> string list \<Rightarrow> jsval \<Rightarrow> string \<Rightarrow> error + unit" where
  "bulkDataCheck h bulkDataAuth userIdentity usable fhirUserClaim fhirServiceBaseUrl =
     (if truthy bulkDataAuth then
        if \<not> truthy (getField (payloadValue userIdentity) ''sub'') then
          Inl (UnauthorizedError ''User does not have permission for requested operation'')
        else if \<not> list_ex (\<lambda>scope. startsWith scope ''system'') usable then
          (case getFhirUser fhirUserClaim of
             Inl e \<Rightarrow> Inl e
           | Inr fhirUser \<Rightarrow>
               if hostname fhirUser \<noteq> fhirServiceBaseUrl \<or>
                  resourceType fhirUser \<notin> set (bulkDataAccessTypes h)
               then Inl (UnauthorizedError ''User does not have permission for requested operation'')
               else Inr ())
        else Inr ()
      else Inr ())"

text \<open>\<open>if (fhirUserClaim && usableScopes.some(...)) userIdentity.fhirUserObject = ...\<close>\<close>

definition attachFhirUser :: "payload \<Rightarrow> jsval \<Rightarrow> string list \<Rightarrow> error + payload" where
  "attachFhirUser userIdentity fhirUserClaim usable =
     (if truthy fhirUserClaim \<and> list_ex (\<lambda>scope. startsWith scope ''user/'') usable then
        (case getFhirUser fhirUserClaim of
           Inl e \<Rightarrow> Inl e
         | Inr r \<Rightarrow> assign userIdentity ''fhirUserObject'' (fhirResourceValue r))
      else Inr userIdentity)"

text \<open>\<open>if (patientContextClaim && usableScopes.some(...)) userIdentity.patientLaunchContext = ...\<close>\<close>

definition attachPatientContext ::
  "payload \<Rightarrow> jsval \<Rightarrow> string list \<Rightarrow> string \<Rightarrow> error + payload" where
  "attachPatientContext userIdentity patientContextClaim usable fhirServiceBaseUrl =
     (if truthy patientContextClaim \<and> list_ex (\<lambda>scope. startsWith scope ''patient/'') usable then
        (case getFhirResource patientContextClaim fhirServiceBaseUrl of
           Inl e \<Rightarrow> Inl e
         | Inr r \<Rightarrow> assign userIdentity ''patientLaunchContext'' (fhirResourceValue r))
      else Inr userIdentity)"

text \<open>
  \<open>verifyAccessToken(request)\<close>, the request's fields as arguments: \<open>accessToken\<close>,
  \<open>operation\<close>, \<open>resourceType\<close>, \<open>bulkDataAuth\<close>, \<open>fhirServiceBaseUrl\<close>. The result is
  the returned \<open>userIdentity\<close> object.
\<close>

definition verifyAccessToken ::
  "libraries \<Rightarrow> 'r smartScopeHelper \<Rightarrow> 'r SMARTHandler \<Rightarrow> string \<Rightarrow> string \<Rightarrow> string option \<Rightarrow>
   jsval \<Rightarrow> string option \<Rightarrow> error + payload" where
  "verifyAccessToken libs sh h accessToken operation requestResourceType bulkDataAuth requestBaseUrl =
     (case decodeToken libs h accessToken of
        Inl e \<Rightarrow> Inl e
      | Inr decodedToken \<Rightarrow>
          let fhirUserClaim = lodash_get libs decodedToken (fhirUserClaimPath (config h));
              patientContextClaim =
                lodash_get libs decodedToken (launchContextPathPrefix (config h) @ ''patient'');
              fhirServiceBaseUrl = (case requestBaseUrl of Some u \<Rightarrow> u | None \<Rightarrow> apiUrl h);
              allScopes = getScopes sh (getField (payloadValue decodedToken) (scopeKey (config h)));
              usable =
                filterOutUnusableScope sh allScopes (scopeRule (config h)) operation
                  (isUserScopeAllowedForSystemExport h) requestResourceType bulkDataAuth
                  patientContextClaim fhirUserClaim
          in
          if usable = [] then
            Inl (UnauthorizedError ''access_token does not have permission for requested operation'')
          else
            (case bulkDataCheck h bulkDataAuth (clone decodedToken) usable fhirUserClaim
                    fhirServiceBaseUrl of
               Inl e \<Rightarrow> Inl e
             | Inr u \<Rightarrow>
                 (case attachFhirUser (clone decodedToken) fhirUserClaim usable of
                    Inl e \<Rightarrow> Inl e
                  | Inr ui1 \<Rightarrow>
                      (case attachPatientContext ui1 patientContextClaim usable fhirServiceBaseUrl of
                         Inl e \<Rightarrow> Inl e
                       | Inr ui2 \<Rightarrow>
                           (case assign ui2 ''scopes'' (JArr (map JStr allScopes)) of
                              Inl e \<Rightarrow> Inl e
                            | Inr ui3 \<Rightarrow> assign ui3 ''usableScopes'' (JArr (map JStr usable)))))))"

subsection \<open>getSearchFilterBasedOnIdentity\<close>

record SearchFilter =
  filter_key :: string
  filter_value :: "string list"
  comparisonOperator :: string
  logicalOperator :: string

text \<open>\<open>set.add(x)\<close> on a \<open>Set\<close>, kept as the list of its members in insertion order.\<close>

definition setAdd :: "'a list \<Rightarrow> 'a \<Rightarrow> 'a list" where
  "setAdd members x = (if x \<in> set members then members else members @ [x])"

text \<open>
  What either identity block adds to \<open>references\<close> and \<open>ids\<close>: the absolute reference,
  the relative one when the identity is of this server, and the id when the requested
  type is the identity's own.
\<close>

definition addIdentity ::
  "FhirResource \<Rightarrow> string option \<Rightarrow> string \<Rightarrow> string list \<times> string list \<Rightarrow> string list \<times> string list" where
  "addIdentity r requestResourceType fhirServiceBaseUrl acc =
     (let references1 =
            setAdd (fst acc) (hostname r @ ''/'' @ resourceType r @ ''/'' @ id' r);
          references2 =
            (if hostname r = fhirServiceBaseUrl
             then setAdd references1 (resourceType r @ ''/'' @ id' r) else references1);
          ids1 =
            (case requestResourceType of
               Some t \<Rightarrow> if t \<noteq> [] \<and> t = resourceType r then setAdd (snd acc) (id' r) else snd acc
             | None \<Rightarrow> snd acc)
      in (references2, ids1))"

definition searchFilters :: "string list \<times> string list \<Rightarrow> SearchFilter list" where
  "searchFilters acc =
     (if fst acc \<noteq> [] then
        [\<lparr>filter_key = ''_references'', filter_value = fst acc, comparisonOperator = ''=='',
          logicalOperator = ''OR''\<rparr>]
      else []) @
     (if snd acc \<noteq> [] then
        [\<lparr>filter_key = ''id'', filter_value = snd acc, comparisonOperator = ''=='',
          logicalOperator = ''OR''\<rparr>]
      else [])"

text \<open>
  \<open>getSearchFilterBasedOnIdentity(request)\<close>, with \<open>request.userIdentity\<close>,
  \<open>request.resourceType\<close> and \<open>request.fhirServiceBaseUrl\<close> as arguments.
\<close>

definition getSearchFilterBasedOnIdentity ::
  "'r SMARTHandler \<Rightarrow> UserIdentity \<Rightarrow> string option \<Rightarrow> string option \<Rightarrow> SearchFilter list" where
  "getSearchFilterBasedOnIdentity h userIdentity requestResourceType requestBaseUrl =
     (let fhirServiceBaseUrl = (case requestBaseUrl of Some u \<Rightarrow> u | None \<Rightarrow> apiUrl h) in
      if hasSystemAccess (usableScopes userIdentity) [] then []
      else
        (case fhirUserObject userIdentity of
           Some fu \<Rightarrow>
             if isFhirUserAdmin fu (adminAccessTypes h) fhirServiceBaseUrl then []
             else
               searchFilters
                 (case patientLaunchContext userIdentity of
                    Some pc \<Rightarrow>
                      addIdentity pc requestResourceType fhirServiceBaseUrl
                        (addIdentity fu requestResourceType fhirServiceBaseUrl ([], []))
                  | None \<Rightarrow> addIdentity fu requestResourceType fhirServiceBaseUrl ([], []))
         | None \<Rightarrow>
             searchFilters
               (case patientLaunchContext userIdentity of
                  Some pc \<Rightarrow> addIdentity pc requestResourceType fhirServiceBaseUrl ([], [])
                | None \<Rightarrow> ([], []))))"

subsection \<open>isWriteRequestAuthorized\<close>

text \<open>
  \<open>isWriteRequestAuthorized(request)\<close>, with \<open>request.userIdentity\<close>,
  \<open>request.resourceBody\<close> and \<open>request.fhirServiceBaseUrl\<close> as arguments (the
  operation is not read).
\<close>

definition isWriteRequestAuthorized ::
  "matrices \<Rightarrow> 'r SMARTHandler \<Rightarrow> UserIdentity \<Rightarrow> jsval \<Rightarrow> string option \<Rightarrow> error + unit" where
  "isWriteRequestAuthorized ms h userIdentity resourceBody requestBaseUrl =
     (let fhirServiceBaseUrl = (case requestBaseUrl of Some u \<Rightarrow> u | None \<Rightarrow> apiUrl h) in
      case hasAccessToResource ms (fhirUserObject userIdentity) (patientLaunchContext userIdentity)
             resourceBody (usableScopes userIdentity) (adminAccessTypes h) fhirServiceBaseUrl
             (fhirVersion h) of
        Inl e \<Rightarrow> Inl e
      | Inr b \<Rightarrow>
          if b then Inr ()
          else Inl (UnauthorizedError ''User does not have permission for requested operation''))"

subsection \<open>isBundleRequestAuthorized\<close>

text \<open>An entry of \<open>request.requests\<close>: its operation, resource type and resource.\<close>

record BatchReadWriteRequest =
  req_operation :: string
  req_resourceType :: string
  req_resource :: jsval

text \<open>The scopes of the identity that its identities make eligible, recomputed for the bundle.\<close>

definition bundleUsableScopes :: "UserIdentity \<Rightarrow> string list" where
  "bundleUsableScopes userIdentity =
     filter
       (\<lambda>scope. (patientLaunchContext userIdentity \<noteq> None \<and> startsWith scope ''patient/'') \<or>
                (fhirUserObject userIdentity \<noteq> None \<and> startsWith scope ''user/'') \<or>
                startsWith scope ''system/'')
       (scopes userIdentity)"

text \<open>The first pass: some usable scope must be sufficient for the entry.\<close>

definition entryScopeSufficient ::
  "'r smartScopeHelper \<Rightarrow> 'r SMARTHandler \<Rightarrow> string list \<Rightarrow> BatchReadWriteRequest \<Rightarrow> bool" where
  "entryScopeSufficient sh h usable req =
     list_ex
       (\<lambda>scope. isScopeSufficient sh scope (scopeRule (config h)) (req_operation req)
                  (isUserScopeAllowedForSystemExport h) (req_resourceType req))
       usable"

text \<open>
  The promise \<open>authWritePromises\<close> holds for an entry: the write check for a mutating
  operation, a resolved promise for any other.
\<close>

definition authWritePromise ::
  "matrices \<Rightarrow> 'r SMARTHandler \<Rightarrow> UserIdentity \<Rightarrow> string list \<Rightarrow> string option \<Rightarrow>
   BatchReadWriteRequest \<Rightarrow> error + unit" where
  "authWritePromise ms h userIdentity usable requestBaseUrl req =
     (if req_operation req \<in> set [''create'', ''update'', ''patch'', ''delete''] then
        isWriteRequestAuthorized ms h (userIdentity\<lparr>usableScopes := usable\<rparr>) (req_resource req)
          requestBaseUrl
      else Inr ())"

text \<open>
  \<open>isBundleRequestAuthorized(request)\<close>, with \<open>request.userIdentity\<close>,
  \<open>request.requests\<close> and \<open>request.fhirServiceBaseUrl\<close> as arguments. Whatever
  rejects \<open>Promise.all\<close> is caught and replaced by the one denial.
\<close>

definition isBundleRequestAuthorized ::
  "'r smartScopeHelper \<Rightarrow> matrices \<Rightarrow> 'r SMARTHandler \<Rightarrow> UserIdentity \<Rightarrow>
   BatchReadWriteRequest list \<Rightarrow> string option \<Rightarrow> error + unit" where
  "isBundleRequestAuthorized sh ms h userIdentity requests requestBaseUrl =
     (let usable = bundleUsableScopes userIdentity in
      if list_ex (\<lambda>req. \<not> entryScopeSufficient sh h usable req) requests then
        Inl (UnauthorizedError ''An entry within the Bundle is not authorized'')
      else if list_ex (\<lambda>req. isl (authWritePromise ms h userIdentity usable requestBaseUrl req)) requests
      then Inl (UnauthorizedError ''An entry within the Bundle is not authorized'')
      else Inr ())"

subsection \<open>authorizeAndFilterReadResponse\<close>

text \<open>\<open>xs.filter(f)\<close> for a callback that may throw.\<close>

fun filterE :: "('a \<Rightarrow> error + bool) \<Rightarrow> 'a list \<Rightarrow> error + 'a list" where
  "filterE f [] = Inr []"
| "filterE f (x # xs) =
     (case f x of
        Inl e \<Rightarrow> Inl e
      | Inr b \<Rightarrow>
          (case filterE f xs of
             Inl e \<Rightarrow> Inl e
           | Inr ys \<Rightarrow> Inr (if b then x # ys else ys)))"

text \<open>
  \<open>(readResponse.entry ?? [])\<close> as the array \<open>.filter\<close> is called on: \<open>[]\<close> for a
  missing or \<open>null\<close> entry; a value that is not an array has no \<open>filter\<close>.
\<close>

definition entryList :: "jsval \<Rightarrow> error + jsval list" where
  "entryList entry =
     (case entry of
        Undefined \<Rightarrow> Inr []
      | JNull \<Rightarrow> Inr []
      | JArr xs \<Rightarrow> Inr xs
      | _ \<Rightarrow> Inl TypeError)"

text \<open>\<open>readResponse.entry.length\<close>, reached only after \<open>entryList\<close> returned.\<close>

definition entryLength :: "jsval \<Rightarrow> error + int" where
  "entryLength entry =
     (case entry of
        JArr xs \<Rightarrow> Inr (int (length xs))
      | _ \<Rightarrow> Inl TypeError)"

text \<open>\<open>numTotal -= d\<close>, exact on the integers of the model.\<close>

definition minusTotal :: "libraries \<Rightarrow> jsval \<Rightarrow> int \<Rightarrow> jsval" where
  "minusTotal libs numTotal d = (case numTotal of JNum n \<Rightarrow> JNum (n - d) | _ \<Rightarrow> coercedMinus libs numTotal d)"

text \<open>The own enumerable properties \<open>{...v}\<close> copies.\<close>

definition spread :: "jsval \<Rightarrow> (string \<times> jsval) list" where
  "spread v =
     (case v of
        JObj kvs \<Rightarrow> kvs
      | JArr xs \<Rightarrow> zip (map string_of_nat [0..<length xs]) xs
      | JStr s \<Rightarrow> zip (map string_of_nat [0..<length s]) (map (\<lambda>c. JStr [c]) s)
      | _ \<Rightarrow> [])"

text \<open>
  \<open>authorizeAndFilterReadResponse(request)\<close>, with \<open>request.userIdentity\<close>,
  \<open>request.operation\<close>, \<open>request.readResponse\<close> and \<open>request.fhirServiceBaseUrl\<close> as
  arguments.
\<close>

definition authorizeAndFilterReadResponse ::
  "libraries \<Rightarrow> 'r smartScopeHelper \<Rightarrow> matrices \<Rightarrow> 'r SMARTHandler \<Rightarrow> UserIdentity \<Rightarrow> string \<Rightarrow>
   jsval \<Rightarrow> string option \<Rightarrow> error + jsval" where
  "authorizeAndFilterReadResponse libs sh ms h userIdentity operation readResponse requestBaseUrl =
     (let fhirServiceBaseUrl = (case requestBaseUrl of Some u \<Rightarrow> u | None \<Rightarrow> apiUrl h);
          access = (\<lambda>resource.
            hasAccessToResource ms (fhirUserObject userIdentity) (patientLaunchContext userIdentity)
              resource (usableScopes userIdentity) (adminAccessTypes h) fhirServiceBaseUrl
              (fhirVersion h))
      in
      if operation \<in> set (SEARCH_OPERATIONS sh) then
        (case getProp readResponse ''entry'' of
           Inl e \<Rightarrow> Inl e
         | Inr entry \<Rightarrow>
             (case entryList entry of
                Inl e \<Rightarrow> Inl e
              | Inr all \<Rightarrow>
                  (case filterE
                          (\<lambda>x. case getProp x ''resource'' of Inl e \<Rightarrow> Inl e | Inr r \<Rightarrow> access r)
                          all of
                     Inl e \<Rightarrow> Inl e
                   | Inr entries \<Rightarrow>
                       let numTotal = getField readResponse ''total'' in
                       if \<not> truthy numTotal then
                         Inr (JObj (setProperty
                                (setProperty (spread readResponse) ''entry'' (JArr entries))
                                ''total'' (JNum (int (length entries)))))
                       else
                         (case entryLength entry of
                            Inl e \<Rightarrow> Inl e
                          | Inr n \<Rightarrow>
                              Inr (JObj (setProperty
                                     (setProperty (spread readResponse) ''entry'' (JArr entries))
                                     ''total'' (minusTotal libs numTotal (n - int (length entries)))))))))
      else
        (case access readResponse of
           Inl e \<Rightarrow> Inl e
         | Inr b \<Rightarrow>
             if b then Inr readResponse
             else Inl (UnauthorizedError ''User does not have permission for requested resource'')))"

section \<open>A configured handler\<close>

text \<open>
  A handler as a deployment constructs it, for the concrete instances below: signature
  verification against a jwks endpoint, FHIR 4.0.1, practitioners as administrators.
\<close>

definition exampleConfig :: "unit SMARTConfig" where
  "exampleConfig =
     \<lparr>version = 1, scopeKey = ''scp'', scopeRule = (), expectedAudValue = AudString ''api://default'',
      expectedIssValue = ''https://idp.example.com'', fhirUserClaimPath = ''fhirUser'',
      launchContextPathPrefix = ''launch_response_'',
      jwksEndpoint = Some ''https://idp.example.com/keys'', tokenIntrospection = None\<rparr>"

definition exampleHandler :: "unit SMARTHandler" where
  "exampleHandler =
     \<lparr>config = exampleConfig, apiUrl = ''https://api.example.com'', fhirVersion = ''4.0.1'',
      adminAccessTypes = [''Practitioner''], bulkDataAccessTypes = [''Practitioner''],
      isUserScopeAllowedForSystemExport = False,
      jwksClient = Some ''https://idp.example.com/keys''\<rparr>"

text \<open>
  An excerpt of the reference matrices, with paths that FHIR declares for these types.
\<close>

definition exampleMatrices :: matrices where
  "exampleMatrices =
     \<lparr>matrix_v4_0_1 =
        [(''Patient'', [(''Patient'', [''link.other'']), (''RelatedPerson'', [''link.other'']),
                        (''Practitioner'', [''generalPractitioner''])]),
         (''Observation'', [(''Patient'', [''subject'', ''performer'']),
                            (''Practitioner'', [''performer''])]),
         (''List'', [(''Patient'', [''subject'', ''source'', ''entry.item''])])],
      matrix_v3_0_1 =
        [(''Patient'', [(''Patient'', [''link.other'']), (''RelatedPerson'', [''link.other''])]),
         (''Observation'', [(''Patient'', [''subject'', ''performer''])])]\<rparr>"

text \<open>
  A scope helper for the instances: a scope is usable when its kind of identity is there,
  and only the wildcard scopes are sufficient.
\<close>

definition exampleScopeHelper :: "unit smartScopeHelper" where
  "exampleScopeHelper =
     \<lparr>getScopes = (\<lambda>v. case v of JArr xs \<Rightarrow> map toString xs | JStr s \<Rightarrow> split_on CHR '' '' s | _ \<Rightarrow> []),
      filterOutUnusableScope = (\<lambda>allScopes rule operation userExport requestResourceType bulkDataAuth
          patientContextClaim fhirUserClaim.
        filter (\<lambda>s. startsWith s ''system/'' \<or> (truthy fhirUserClaim \<and> startsWith s ''user/'') \<or>
                    (truthy patientContextClaim \<and> startsWith s ''patient/'')) allScopes),
      isScopeSufficient = (\<lambda>scope rule operation userExport requestResourceType.
        scope \<in> set [''patient/*.*'', ''user/*.*'', ''system/*.*'']),
      SEARCH_OPERATIONS = [''search-type'', ''search-system'', ''history-type'', ''history-instance'',
        ''history-system'']\<rparr>"

definition examplePatient :: FhirResource where
  "examplePatient = \<lparr>hostname = ''https://api.example.com'', resourceType = ''Patient'', id' = ''123''\<rparr>"

definition externalPatient :: FhirResource where
  "externalPatient = \<lparr>hostname = ''https://other.example.org'', resourceType = ''Patient'', id' = ''123''\<rparr>"

definition observationOf :: "string \<Rightarrow> string \<Rightarrow> jsval" where
  "observationOf i subject =
     JObj [(''resourceType'', JStr ''Observation''), (''id'', JStr i),
           (''subject'', JObj [(''reference'', JStr subject)])]"

definition patientIdentity :: UserIdentity where
  "patientIdentity =
     \<lparr>scopes = [''openid'', ''patient/*.*''], usableScopes = [''patient/*.*''],
      fhirUserObject = None, patientLaunchContext = Some examplePatient\<rparr>"

text \<open>A bundle of three writes: the second is of an observation about another patient.\<close>

definition exampleBundle :: "BatchReadWriteRequest list" where
  "exampleBundle =
     [\<lparr>req_operation = ''create'', req_resourceType = ''Observation'',
       req_resource = observationOf ''o1'' ''Patient/123''\<rparr>,
      \<lparr>req_operation = ''update'', req_resourceType = ''Observation'',
       req_resource = observationOf ''o2'' ''Patient/456''\<rparr>,
      \<lparr>req_operation = ''update'', req_resourceType = ''Observation'',
       req_resource = observationOf ''o3'' ''https://api.example.com/Patient/123''\<rparr>]"

text \<open>A decoded token whose issuer is not the configured one.\<close>

definition exampleToken :: Jwt where
  "exampleToken =
     \<lparr>jwt_header = JObj [(''alg'', JStr ''RS256''), (''kid'', JStr ''key-1'')],
      jwt_payload = PayloadObject
        [(''iss'', JStr ''https://evil.example.org''), (''aud'', JStr ''api://default''),
         (''scp'', JArr [JStr ''user/*.read'']), (''sub'', JStr ''alice'')]\<rparr>"

text \<open>
  Libraries under which every external check succeeds: the token decodes to the given
  one, the key is found, the signature verifies, introspection reports the token active.
\<close>

definition acceptingLibraries :: "Jwt \<Rightarrow> libraries" where
  "acceptingLibraries jwt =
     \<lparr>jwt_decode = (\<lambda>token. DecodedJwt jwt),
      jwt_verify = (\<lambda>token key aud iss. Inr (jwt_payload jwt)),
      getSigningKeyAsync = (\<lambda>uri kid. Inr ''public-key''),
      axios_post = (\<lambda>url body user password. Inr (JObj [(''active'', JBool True)])),
      lodash_get = (\<lambda>p path. getField (payloadValue p) path),
      coercedMinus = (\<lambda>v d. Undefined)\<rparr>"

text \<open>
  A list whose entries hold an array of items, no item, and a single item: the path
  \<open>entry.item\<close> passes through an array of arrays.
\<close>

definition exampleList :: jsval where
  "exampleList =
     JObj [(''resourceType'', JStr ''List''), (''id'', JStr ''l1''),
           (''entry'',
              JArr [JObj [(''item'', JArr [JObj [(''reference'', JStr ''Patient/1'')],
                                           JObj [(''reference'', JStr ''Patient/2'')]])],
                    JObj [(''deleted'', JBool False)],
                    JObj [(''item'', JObj [(''reference'', JStr ''Patient/3'')])]])]"

text \<open>A patient resource whose \<open>link\<close> array holds a \<open>null\<close>, and a related person of this server.\<close>

definition nullLinkPatient :: jsval where
  "nullLinkPatient =
     JObj [(''resourceType'', JStr ''Patient''), (''id'', JStr ''123''), (''link'', JArr [JNull])]"

definition relatedPerson :: FhirResource where
  "relatedPerson = \<lparr>hostname = ''https://api.example.com'', resourceType = ''RelatedPerson'', id' = ''rp1''\<rparr>"

text \<open>
  A decoded token of the configured issuer and audience with a patient scope and a
  patient launch context, no \<open>fhirUser\<close> claim, and a claim named \<open>fhirUserObject\<close>.
\<close>

definition injectedToken :: Jwt where
  "injectedToken =
     \<lparr>jwt_header = JObj [(''alg'', JStr ''RS256''), (''kid'', JStr ''key-1'')],
      jwt_payload = PayloadObject
        [(''iss'', JStr ''https://idp.example.com''), (''aud'', JStr ''api://default''),
         (''scp'', JArr [JStr ''patient/Observation.read'']),
         (''launch_response_patient'', JStr ''Patient/123''),
         (''fhirUserObject'',
            JObj [(''hostname'', JStr ''https://api.example.com''),
                  (''resourceType'', JStr ''Practitioner''), (''id'', JStr ''dr1'')])]\<rparr>"

section \<open>Properties\<close>

subsection \<open>Strings and scopes\<close>

lemma split_on_nonempty: "split_on c s \<noteq> []"
  by (induction s) (auto split: list.splits)

lemma startsWith_simps [simp]:
  "startsWith s [] = True"
  "startsWith [] (c # p) = False"
  "startsWith (d # s) (c # p) = (d = c \<and> startsWith s p)"
  by (auto simp add: startsWith_def)

lemma startsWith_system_star: "startsWith s ''system/*'' \<Longrightarrow> startsWith s ''system/''"
  using append_prefixD [of "''system/''" "''*''" s] by (simp add: startsWith_def)

lemma hasSystemAccess_empty_type:
  "hasSystemAccess xs [] = list_ex (\<lambda>s. startsWith s ''system/'') xs"
  by (auto simp add: hasSystemAccess_def list_ex_iff dest: startsWith_system_star)

subsection \<open>System access\<close>

text \<open>
  C1, as stated, fails: the scope \<open>system/Patient.read\<close> gives system access to
  \<open>Patient\<close>, and it is neither \<open>system/*\<close> nor \<open>system/Patient\<close>.
\<close>

theorem hasSystemAccess_exact_counterexample:
  "hasSystemAccess [''system/Patient.read''] ''Patient'' \<and>
   ''system/Patient.read'' \<noteq> ''system/*'' \<and>
   ''system/Patient.read'' \<noteq> ''system/'' @ ''Patient''"
  by (simp add: hasSystemAccess_def)

text \<open>
  C1, amended: \<open>hasSystemAccess\<close> is true whenever some scope of the list is
  \<open>system/*\<close> or \<open>system/{resourceType}\<close>, exactly or followed by \<open>.\<close> and an access
  type (as in \<open>system/Patient.read\<close>); it is false whenever no scope of the list starts
  with \<open>system/*\<close> or with \<open>system/{resourceType}\<close>. Nothing is stated for a scope
  that continues \<open>system/{resourceType}\<close> with further characters of a type name. In
  particular \<open>hasSystemAccess(["system/*"], t)\<close> is true for every \<open>t\<close>, and
  \<open>hasSystemAccess(["system/Patient"], "Observation")\<close> is false.
\<close>

theorem hasSystemAccess_scope_forms:
  "((\<exists>s\<in>set scopeList.
        s = ''system/*'' \<or> prefix ''system/*.'' s \<or>
        s = ''system/'' @ t \<or> prefix (''system/'' @ t @ ''.'') s) \<longrightarrow>
      hasSystemAccess scopeList t) \<and>
   (hasSystemAccess scopeList t \<longrightarrow>
      (\<exists>s\<in>set scopeList. prefix ''system/*'' s \<or> prefix (''system/'' @ t) s)) \<and>
   hasSystemAccess [''system/*''] t \<and>
   \<not> hasSystemAccess [''system/Patient''] ''Observation''"
proof (intro conjI impI)
  assume "\<exists>s\<in>set scopeList.
        s = ''system/*'' \<or> prefix ''system/*.'' s \<or>
        s = ''system/'' @ t \<or> prefix (''system/'' @ t @ ''.'') s"
  then obtain s where mem: "s \<in> set scopeList"
    and form: "s = ''system/*'' \<or> prefix ''system/*.'' s \<or>
        s = ''system/'' @ t \<or> prefix (''system/'' @ t @ ''.'') s"
    by blast
  have star: "prefix ''system/*.'' s \<Longrightarrow> prefix ''system/*'' s"
    using append_prefixD [of "''system/*''" "''.''" s] by simp
  have typed: "prefix (''system/'' @ t @ ''.'') s \<Longrightarrow> prefix (''system/'' @ t) s"
    using append_prefixD [of "''system/'' @ t" "''.''" s] by simp
  from form have "prefix ''system/*'' s \<or> prefix (''system/'' @ t) s"
    using star typed by auto
  with mem show "hasSystemAccess scopeList t"
    by (auto simp add: hasSystemAccess_def list_ex_iff startsWith_def)
next
  assume "hasSystemAccess scopeList t"
  then show "\<exists>s\<in>set scopeList. prefix ''system/*'' s \<or> prefix (''system/'' @ t) s"
    by (simp add: hasSystemAccess_def list_ex_iff startsWith_def)
next
  show "hasSystemAccess [''system/*''] t"
    by (simp add: hasSystemAccess_def)
next
  show "\<not> hasSystemAccess [''system/Patient''] ''Observation''"
    by (simp add: hasSystemAccess_def)
qed

theorem hasSystemAccess_scope_forms_witness:
  "hasSystemAccess [''user/Patient.read'', ''system/Observation.read''] ''Observation'' \<and>
   \<not> hasSystemAccess [''user/Patient.read'', ''system/Observation.read''] ''Patient''"
  using hasSystemAccess_scope_forms [of "[''user/Patient.read'', ''system/Observation.read'']" "''Observation''"]
        hasSystemAccess_scope_forms [of "[''user/Patient.read'', ''system/Observation.read'']" "''Patient''"]
  by simp

text \<open>
  The case the amended statement leaves out: the test is a bare prefix test, so a scope
  for a type whose name extends the requested one passes it, against the function's
  documentation (a usable system scope for this request) and the scope grammar. This is a
  defect of the source, not a property it is meant to have.
\<close>

lemma hasSystemAccess_longer_type_name:
  "hasSystemAccess [''system/MedicationRequest.read''] ''Medication''"
  by (simp add: hasSystemAccess_def)

subsection \<open>Search filters\<close>

text \<open>
  C6: for the identity with \<open>fhirUserObject\<close> \<open>{hostname: "https://api.example.com",
  resourceType: "Patient", id: "123"}\<close>, requested type \<open>Patient\<close>, base URL
  \<open>https://api.example.com\<close> (given by the request or, without one, the handler's), no
  usable scope starting with \<open>system/\<close>, no patient launch context, and \<open>Patient\<close> not
  an admin type, \<open>getSearchFilterBasedOnIdentity\<close> returns exactly the \<open>_references\<close>
  filter on the absolute and the relative reference and the \<open>id\<close> filter on \<open>123\<close>, in
  that order.
\<close>

theorem getSearchFilterBasedOnIdentity_patient_scenario:
  "fhirUserObject userIdentity =
     Some \<lparr>hostname = ''https://api.example.com'', resourceType = ''Patient'', id' = ''123''\<rparr> \<Longrightarrow>
   patientLaunchContext userIdentity = None \<Longrightarrow>
   \<not> list_ex (\<lambda>s. startsWith s ''system/'') (usableScopes userIdentity) \<Longrightarrow>
   ''Patient'' \<notin> set (adminAccessTypes h) \<Longrightarrow>
   (case requestBaseUrl of Some u \<Rightarrow> u | None \<Rightarrow> apiUrl h) = ''https://api.example.com'' \<Longrightarrow>
   getSearchFilterBasedOnIdentity h userIdentity (Some ''Patient'') requestBaseUrl =
     [\<lparr>filter_key = ''_references'',
       filter_value = [''https://api.example.com/Patient/123'', ''Patient/123''],
       comparisonOperator = ''=='', logicalOperator = ''OR''\<rparr>,
      \<lparr>filter_key = ''id'', filter_value = [''123''],
       comparisonOperator = ''=='', logicalOperator = ''OR''\<rparr>]"
proof -
  assume fu: "fhirUserObject userIdentity =
     Some \<lparr>hostname = ''https://api.example.com'', resourceType = ''Patient'', id' = ''123''\<rparr>"
    and pc: "patientLaunchContext userIdentity = None"
    and sys: "\<not> list_ex (\<lambda>s. startsWith s ''system/'') (usableScopes userIdentity)"
    and adm: "''Patient'' \<notin> set (adminAccessTypes h)"
    and url: "(case requestBaseUrl of Some u \<Rightarrow> u | None \<Rightarrow> apiUrl h) = ''https://api.example.com''"
  from sys have nosys: "\<not> hasSystemAccess (usableScopes userIdentity) []"
    by (simp add: hasSystemAccess_empty_type)
  have added: "addIdentity \<lparr>hostname = ''https://api.example.com'', resourceType = ''Patient'', id' = ''123''\<rparr>
      (Some ''Patient'') ''https://api.example.com'' ([], []) =
      ([''https://api.example.com/Patient/123'', ''Patient/123''], [''123''])"
    by (simp add: addIdentity_def setAdd_def)
  show ?thesis
    using nosys adm
    by (simp add: getSearchFilterBasedOnIdentity_def fu pc url isFhirUserAdmin_def added
        searchFilters_def)
qed

theorem getSearchFilterBasedOnIdentity_patient_scenario_witness:
  "getSearchFilterBasedOnIdentity exampleHandler
     \<lparr>scopes = [''openid'', ''user/*.read''], usableScopes = [''user/*.read''],
       fhirUserObject =
         Some \<lparr>hostname = ''https://api.example.com'', resourceType = ''Patient'', id' = ''123''\<rparr>,
       patientLaunchContext = None\<rparr>
     (Some ''Patient'') None =
     [\<lparr>filter_key = ''_references'',
       filter_value = [''https://api.example.com/Patient/123'', ''Patient/123''],
       comparisonOperator = ''=='', logicalOperator = ''OR''\<rparr>,
      \<lparr>filter_key = ''id'', filter_value = [''123''],
       comparisonOperator = ''=='', logicalOperator = ''OR''\<rparr>]"
  using getSearchFilterBasedOnIdentity_patient_scenario [where h = exampleHandler
     and userIdentity = "\<lparr>scopes = [''openid'', ''user/*.read''], usableScopes = [''user/*.read''],
       fhirUserObject =
         Some \<lparr>hostname = ''https://api.example.com'', resourceType = ''Patient'', id' = ''123''\<rparr>,
       patientLaunchContext = None\<rparr>" and requestBaseUrl = None]
  by (simp add: exampleHandler_def)

text \<open>
  C9: whenever some usable scope of the identity starts with \<open>system/\<close> (a
  type-restricted one such as \<open>system/Patient.read\<close> included), the system-access test
  with the empty string as resource type succeeds, and \<open>getSearchFilterBasedOnIdentity\<close>
  returns the empty filter list, whatever the identities, the requested type and the
  base URL are.
\<close>

theorem getSearchFilterBasedOnIdentity_system_scope:
  "s \<in> set (usableScopes userIdentity) \<Longrightarrow> startsWith s ''system/'' \<Longrightarrow>
   hasSystemAccess (usableScopes userIdentity) [] \<and>
   getSearchFilterBasedOnIdentity h userIdentity requestResourceType requestBaseUrl = []"
proof -
  assume a: "s \<in> set (usableScopes userIdentity)" and b: "startsWith s ''system/''"
  from a b have "hasSystemAccess (usableScopes userIdentity) []"
    unfolding hasSystemAccess_empty_type list_ex_iff by auto
  then show ?thesis
    by (simp add: getSearchFilterBasedOnIdentity_def)
qed

theorem getSearchFilterBasedOnIdentity_system_scope_witness:
  "getSearchFilterBasedOnIdentity exampleHandler
     \<lparr>scopes = [''system/Patient.read''], usableScopes = [''system/Patient.read''],
       fhirUserObject =
         Some \<lparr>hostname = ''https://api.example.com'', resourceType = ''Patient'', id' = ''123''\<rparr>,
       patientLaunchContext = None\<rparr>
     (Some ''Observation'') None = []"
  using getSearchFilterBasedOnIdentity_system_scope [where s = "''system/Patient.read''"
     and userIdentity = "\<lparr>scopes = [''system/Patient.read''], usableScopes = [''system/Patient.read''],
       fhirUserObject =
         Some \<lparr>hostname = ''https://api.example.com'', resourceType = ''Patient'', id' = ''123''\<rparr>,
       patientLaunchContext = None\<rparr>" and h = exampleHandler
     and requestResourceType = "Some ''Observation''" and requestBaseUrl = None]
  by simp

subsection \<open>The reference matcher\<close>

text \<open>
  On a source resource that is an object without \<open>null\<close> elements in its arrays, and
  for candidates none of which is the empty string, the breadth-first walk of the source
  never throws and answers as the specification's wording does.
\<close>

lemma getProp_defined: "v \<noteq> Undefined \<Longrightarrow> v \<noteq> JNull \<Longrightarrow> getProp v k = Inr (getField v k)"
  by (cases v) auto

lemma truthy_defined: "truthy v \<Longrightarrow> v \<noteq> Undefined \<and> v \<noteq> JNull"
  by auto

lemma getField_falsy: "\<not> truthy v \<Longrightarrow> getField v k = Undefined"
  by (cases v) auto

lemma stepItem_falsy: "\<not> truthy v \<Longrightarrow> stepItem seg v = [Undefined]"
  by (cases v) (auto simp add: stepItem_def)

lemma pushEach_defined:
  "list_all (\<lambda>x. x \<noteq> Undefined \<and> x \<noteq> JNull) xs \<Longrightarrow>
   pushEach seg xs q = Inr (q @ map (\<lambda>x. getField x seg) xs)"
  by (induction xs arbitrary: q) (auto simp add: getProp_defined)

lemma noNullElements_getField: "noNullElements v \<Longrightarrow> noNullElements (getField v k)"
proof (cases v)
  case (JObj kvs)
  assume wf: "noNullElements v"
  show ?thesis
  proof (cases "map_of kvs k")
    case None
    then show ?thesis using JObj by simp
  next
    case (Some w)
    then have "(k, w) \<in> set kvs" by (rule map_of_SomeD)
    with wf JObj have "noNullElements w" by (auto simp add: list_all_iff)
    then show ?thesis using JObj Some by simp
  qed
qed auto

lemma noNullElements_stepItem: "noNullElements v \<Longrightarrow> list_all noNullElements (stepItem seg v)"
  by (cases v) (auto simp add: stepItem_def list_all_iff noNullElements_getField
      simp del: getField.simps)

lemma drainQueue_defined:
  "list_all noNullElements root \<Longrightarrow>
   drainQueue seg root q = Inr (q @ concat (map (stepItem seg) (filter truthy root)))"
proof (induction root arbitrary: q)
  case Nil
  then show ?case by simp
next
  case (Cons t root)
  show ?case
  proof (cases "truthy t")
    case False
    then show ?thesis using Cons by simp
  next
    case True
    show ?thesis
    proof (cases t)
      case (JArr xs)
      with Cons.prems have "list_all (\<lambda>x. x \<noteq> Undefined \<and> x \<noteq> JNull) xs"
        by (auto simp add: list_all_iff)
      then show ?thesis
        using JArr Cons by (simp add: pushEach_defined stepItem_def)
    qed (use True Cons in \<open>auto simp add: stepItem_def\<close>)
  qed
qed

lemma filter_truthy_nextLayer:
  "filter truthy (spec_nextLayer seg (filter truthy layer)) = filter truthy (spec_nextLayer seg layer)"
  by (induction layer) (auto simp add: spec_nextLayer_def stepItem_falsy)

lemma walkPath_defined:
  "list_all noNullElements q \<Longrightarrow> filter truthy q = filter truthy layer \<Longrightarrow>
   \<exists>q'. walkPath segs q = Inr q' \<and> filter truthy q' = filter truthy (spec_expand segs layer)"
proof (induction segs arbitrary: q layer)
  case Nil
  then show ?case by simp
next
  case (Cons seg segs)
  let ?q1 = "concat (map (stepItem seg) (filter truthy q))"
  have step: "drainQueue seg q [] = Inr ?q1"
    using Cons.prems(1) by (simp add: drainQueue_defined)
  have wf: "list_all noNullElements ?q1"
    using Cons.prems(1) noNullElements_stepItem [of _ seg] by (fastforce simp add: list_all_iff)
  have "filter truthy ?q1 = filter truthy (spec_nextLayer seg (filter truthy layer))"
    using Cons.prems(2) by (simp add: spec_nextLayer_def)
  then have rel: "filter truthy ?q1 = filter truthy (spec_nextLayer seg layer)"
    by (simp add: filter_truthy_nextLayer)
  from Cons.IH [OF wf rel] show ?case
    using step by simp
qed

lemma flat_Nil: "flat [] = []"
  by (simp add: flat_def)

lemma flat_Cons: "flat (v # q) = (case v of JArr xs \<Rightarrow> xs | _ \<Rightarrow> [v]) @ flat q"
  by (simp add: flat_def)

lemma flat_falsy: "\<not> truthy v \<Longrightarrow> flat (v # q) = v # flat q"
  by (cases v) (simp_all add: flat_Cons)

lemma list_ex_flat_truthy:
  assumes P: "\<And>x. P x \<Longrightarrow> truthy x"
  shows "list_ex P (flat q) = list_ex P (flat (filter truthy q))"
proof (induction q)
  case Nil
  show ?case by simp
next
  case (Cons v q)
  show ?case
  proof (cases "truthy v")
    case True
    then show ?thesis
      using Cons by (simp add: flat_Cons)
  next
    case False
    then have "\<not> P v" using P by blast
    then show ?thesis
      using False Cons by (simp add: flat_falsy)
  qed
qed

lemma spec_leafMatches_truthy: "spec_leafMatches ids x \<Longrightarrow> truthy x"
proof (rule ccontr)
  assume m: "spec_leafMatches ids x" and "\<not> truthy x"
  then have "getField x ''reference'' = Undefined"
    by (rule_tac getField_falsy)
  with m show False
    by (simp add: spec_leafMatches_def)
qed

lemma referenceIncluded_spec:
  assumes ids: "[] \<notin> set ids"
  shows "referenceIncluded ids x = spec_leafMatches ids x"
proof (cases "spec_leafMatches ids x")
  case True
  then obtain r where r: "getField x ''reference'' = JStr r" "r \<in> set ids"
    by (cases "getField x ''reference''") (simp_all add: spec_leafMatches_def)
  with ids have "r \<noteq> []" by auto
  with r True spec_leafMatches_truthy [OF True] show ?thesis
    by (simp add: referenceIncluded_def)
next
  case False
  then show ?thesis
    by (cases "getField x ''reference''") (simp_all add: referenceIncluded_def spec_leafMatches_def)
qed

lemma pathMatches_refines_spec:
  assumes obj: "sourceResource = JObj kvs" and wf: "noNullElements sourceResource"
    and ids: "[] \<notin> set requestorIds"
  shows "pathMatches requestorIds sourceResource path =
     Inr (list_ex (spec_leafMatches requestorIds) (spec_leaves sourceResource path))"
proof -
  obtain p0 ps where parts: "split_on CHR ''.'' path = p0 # ps"
    using split_on_nonempty [of "CHR ''.''" path] by (cases "split_on CHR ''.'' path") auto
  have first: "getProp sourceResource p0 = Inr (getField sourceResource p0)"
    using obj by simp
  have wf0: "list_all noNullElements [getField sourceResource p0]"
    using wf by (simp add: noNullElements_getField del: getField.simps)
  have layer0: "spec_nextLayer p0 [sourceResource] = [getField sourceResource p0]"
    using obj by (simp add: spec_nextLayer_def stepItem_def)
  from walkPath_defined [OF wf0 refl, of ps]
  obtain q' where walk: "walkPath ps [getField sourceResource p0] = Inr q'"
    and rel: "filter truthy q' = filter truthy (spec_expand ps [getField sourceResource p0])"
    by blast
  have same: "referenceIncluded requestorIds = spec_leafMatches requestorIds"
    using ids by (simp add: fun_eq_iff referenceIncluded_spec)
  have "list_ex (referenceIncluded requestorIds) (flat q') =
      list_ex (spec_leafMatches requestorIds) (flat q')"
    by (simp only: same)
  also have "\<dots> = list_ex (spec_leafMatches requestorIds) (flat (filter truthy q'))"
    by (rule list_ex_flat_truthy) (rule spec_leafMatches_truthy)
  also have "\<dots> = list_ex (spec_leafMatches requestorIds)
      (flat (filter truthy (spec_expand ps [getField sourceResource p0])))"
    by (simp add: rel)
  also have "\<dots> = list_ex (spec_leafMatches requestorIds)
      (flat (spec_expand ps [getField sourceResource p0]))"
    by (rule list_ex_flat_truthy [symmetric]) (rule spec_leafMatches_truthy)
  finally have "list_ex (referenceIncluded requestorIds) (flat q') =
      list_ex (spec_leafMatches requestorIds) (spec_leaves sourceResource path)"
    by (simp add: spec_leaves_def parts layer0 flat_def)
  then show ?thesis
    by (simp add: pathMatches_def parts first walk del: getProp.simps getField.simps)
qed

lemma someE_total:
  "(\<And>x. f x = Inr (g x)) \<Longrightarrow> someE f xs = Inr (list_ex g xs)"
  by (induction xs) auto

lemma isRequestorReferenced_refines_spec:
  assumes obj: "sourceResource = JObj kvs" and wf: "noNullElements sourceResource"
    and ids: "[] \<notin> set requestorIds"
    and supported: "ver = ''4.0.1'' \<or> ver = ''3.0.1''"
  shows "isRequestorReferenced ms requestorIds requestorResourceType sourceResource ver =
     Inr (spec_isReferenced
            (if ver = ''4.0.1'' then matrix_v4_0_1 ms else matrix_v3_0_1 ms)
            requestorIds requestorResourceType sourceResource)"
proof -
  have paths: "\<And>ps. someE (pathMatches requestorIds sourceResource) ps =
      Inr (list_ex (\<lambda>path. list_ex (spec_leafMatches requestorIds) (spec_leaves sourceResource path)) ps)"
    by (rule someE_total) (rule pathMatches_refines_spec [OF obj wf ids])
  have rt: "getProp sourceResource ''resourceType'' = Inr (getField sourceResource ''resourceType'')"
    using obj by simp
  from supported show ?thesis
  proof
    assume "ver = ''4.0.1''"
    then show ?thesis
      by (simp add: isRequestorReferenced_def rt paths spec_isReferenced_def
          del: getProp.simps getField.simps)
  next
    assume "ver = ''3.0.1''"
    then show ?thesis
      by (simp add: isRequestorReferenced_def rt paths spec_isReferenced_def
          del: getProp.simps getField.simps)
  qed
qed

text \<open>The same for \<open>hasReferenceToResource\<close>, whose candidates are never empty.\<close>

lemma hasReferenceToResource_refines_spec:
  assumes obj: "sourceResource = JObj kvs" and wf: "noNullElements sourceResource"
    and supported: "ver = ''4.0.1'' \<or> ver = ''3.0.1''"
  shows "hasReferenceToResource ms r sourceResource url ver =
     Inr (if hostname r \<noteq> url then
            spec_isReferenced (if ver = ''4.0.1'' then matrix_v4_0_1 ms else matrix_v3_0_1 ms)
              [hostname r @ ''/'' @ resourceType r @ ''/'' @ id' r] (resourceType r) sourceResource
          else
            (getField sourceResource ''resourceType'' = JStr (resourceType r) \<and>
             getField sourceResource ''id'' = JStr (id' r)) \<or>
            spec_isReferenced (if ver = ''4.0.1'' then matrix_v4_0_1 ms else matrix_v3_0_1 ms)
              [resourceType r @ ''/'' @ id' r, hostname r @ ''/'' @ resourceType r @ ''/'' @ id' r]
              (resourceType r) sourceResource)"
proof -
  have abs: "[] \<notin> set [hostname r @ ''/'' @ resourceType r @ ''/'' @ id' r]"
    by simp
  have both: "[] \<notin> set [resourceType r @ ''/'' @ id' r,
      hostname r @ ''/'' @ resourceType r @ ''/'' @ id' r]"
    by simp
  have direct: "sameTypeAndId r sourceResource =
      Inr (getField sourceResource ''resourceType'' = JStr (resourceType r) \<and>
           getField sourceResource ''id'' = JStr (id' r))"
    using obj by (simp add: sameTypeAndId_def strictEqStr_def)
  show ?thesis
    unfolding hasReferenceToResource_def direct
      isRequestorReferenced_refines_spec [OF obj wf abs supported]
      isRequestorReferenced_refines_spec [OF obj wf both supported]
    by (auto simp add: orElse_def simp del: getField.simps)
qed

text \<open>
  A match in a nested array, a match below an entry that is not an array, and no match.
\<close>

lemma isRequestorReferenced_nested_lists:
  "isRequestorReferenced exampleMatrices [''Patient/2''] ''Patient'' exampleList ''4.0.1'' = Inr True \<and>
   isRequestorReferenced exampleMatrices [''Patient/3''] ''Patient'' exampleList ''4.0.1'' = Inr True \<and>
   isRequestorReferenced exampleMatrices [''Patient/4''] ''Patient'' exampleList ''4.0.1'' = Inr False"
  by code_simp

text \<open>
  C2 fails on a source resource with a \<open>null\<close> element in an array on a path: for
  \<open>{resourceType: "Patient", id: "123", link: [null]}\<close> and the path \<open>link.other\<close> no
  leaf matches, so the claim has the matcher return false, but the read of \<open>other\<close> off
  the \<open>null\<close> element throws a \<open>TypeError\<close>.
\<close>

theorem isRequestorReferenced_null_element:
  "isRequestorReferenced exampleMatrices [''Patient/456'', ''https://api.example.com/Patient/456'']
     ''Patient'' nullLinkPatient ''4.0.1'' = Inl TypeError \<and>
   spec_isReferenced (matrix_v4_0_1 exampleMatrices)
     [''Patient/456'', ''https://api.example.com/Patient/456''] ''Patient'' nullLinkPatient = False"
  by code_simp

subsection \<open>hasReferenceToResource\<close>

text \<open>
  C3: when the requestor's hostname differs from the base URL, \<open>hasReferenceToResource\<close>
  is the matcher's answer for the fully-qualified form \<open>{hostname}/{resourceType}/{id}\<close>
  alone, so it is true only when that form is found. When the hostname is the base URL, it
  is true exactly when the requestor's type and id are the source resource's
  \<open>resourceType\<close> and \<open>id\<close>, or the matcher finds one of the relative and the
  absolute form.
\<close>

theorem hasReferenceToResource_cases:
  "(hostname r \<noteq> url \<longrightarrow>
      hasReferenceToResource ms r src url ver =
        isRequestorReferenced ms [hostname r @ ''/'' @ resourceType r @ ''/'' @ id' r]
          (resourceType r) src ver) \<and>
   (hostname r = url \<longrightarrow>
      (hasReferenceToResource ms r src url ver = Inr True \<longleftrightarrow>
         (getProp src ''resourceType'' = Inr (JStr (resourceType r)) \<and>
          getProp src ''id'' = Inr (JStr (id' r))) \<or>
         isRequestorReferenced ms
           [resourceType r @ ''/'' @ id' r, hostname r @ ''/'' @ resourceType r @ ''/'' @ id' r]
           (resourceType r) src ver = Inr True))"
proof (intro conjI impI)
  assume "hostname r \<noteq> url"
  then show "hasReferenceToResource ms r src url ver =
        isRequestorReferenced ms [hostname r @ ''/'' @ resourceType r @ ''/'' @ id' r]
          (resourceType r) src ver"
    by (simp add: hasReferenceToResource_def)
next
  assume same: "hostname r = url"
  show "hasReferenceToResource ms r src url ver = Inr True \<longleftrightarrow>
         (getProp src ''resourceType'' = Inr (JStr (resourceType r)) \<and>
          getProp src ''id'' = Inr (JStr (id' r))) \<or>
         isRequestorReferenced ms
           [resourceType r @ ''/'' @ id' r, hostname r @ ''/'' @ resourceType r @ ''/'' @ id' r]
           (resourceType r) src ver = Inr True"
  proof (cases "getProp src ''resourceType''")
    case (Inl e)
    then show ?thesis
      using same
      by (simp add: hasReferenceToResource_def orElse_def sameTypeAndId_def isRequestorReferenced_def)
  next
    case (Inr t)
    then obtain i where i: "getProp src ''id'' = Inr i"
      by (cases src) auto
    show ?thesis
      using same Inr i
      by (auto simp add: hasReferenceToResource_def orElse_def sameTypeAndId_def strictEqStr_def)
  qed
qed

theorem hasReferenceToResource_cases_witness:
  "hasReferenceToResource exampleMatrices externalPatient
     (observationOf ''o1'' ''https://other.example.org/Patient/123'') ''https://api.example.com'' ''4.0.1'' =
     Inr True \<and>
   hasReferenceToResource exampleMatrices externalPatient
     (observationOf ''o1'' ''Patient/123'') ''https://api.example.com'' ''4.0.1'' = Inr False \<and>
   hasReferenceToResource exampleMatrices examplePatient
     (JObj [(''resourceType'', JStr ''Patient''), (''id'', JStr ''123'')]) ''https://api.example.com''
     ''4.0.1'' = Inr True \<and>
   hasReferenceToResource exampleMatrices examplePatient
     (observationOf ''o1'' ''Patient/123'') ''https://api.example.com'' ''4.0.1'' = Inr True"
proof -
  have ext: "hostname externalPatient \<noteq> ''https://api.example.com''"
    by (simp add: externalPatient_def)
  have own: "hostname examplePatient = ''https://api.example.com''"
    by (simp add: examplePatient_def)
  have m1: "isRequestorReferenced exampleMatrices
      [hostname externalPatient @ ''/'' @ resourceType externalPatient @ ''/'' @ id' externalPatient]
      (resourceType externalPatient) (observationOf ''o1'' ''https://other.example.org/Patient/123'')
      ''4.0.1'' = Inr True"
    by code_simp
  have m2: "isRequestorReferenced exampleMatrices
      [hostname externalPatient @ ''/'' @ resourceType externalPatient @ ''/'' @ id' externalPatient]
      (resourceType externalPatient) (observationOf ''o1'' ''Patient/123'') ''4.0.1'' = Inr False"
    by code_simp
  have d3: "getProp (JObj [(''resourceType'', JStr ''Patient''), (''id'', JStr ''123'')]) ''resourceType'' =
      Inr (JStr (resourceType examplePatient)) \<and>
    getProp (JObj [(''resourceType'', JStr ''Patient''), (''id'', JStr ''123'')]) ''id'' =
      Inr (JStr (id' examplePatient))"
    by (simp add: examplePatient_def)
  have m4: "isRequestorReferenced exampleMatrices
      [resourceType examplePatient @ ''/'' @ id' examplePatient,
       hostname examplePatient @ ''/'' @ resourceType examplePatient @ ''/'' @ id' examplePatient]
      (resourceType examplePatient) (observationOf ''o1'' ''Patient/123'') ''4.0.1'' = Inr True"
    by code_simp
  show ?thesis
    using hasReferenceToResource_cases [where r = externalPatient and url = "''https://api.example.com''"
        and ms = exampleMatrices and ver = "''4.0.1''"
        and src = "observationOf ''o1'' ''https://other.example.org/Patient/123''"]
      hasReferenceToResource_cases [where r = externalPatient and url = "''https://api.example.com''"
        and ms = exampleMatrices and ver = "''4.0.1''" and src = "observationOf ''o1'' ''Patient/123''"]
      hasReferenceToResource_cases [where r = examplePatient and url = "''https://api.example.com''"
        and ms = exampleMatrices and ver = "''4.0.1''"
        and src = "JObj [(''resourceType'', JStr ''Patient''), (''id'', JStr ''123'')]"]
      hasReferenceToResource_cases [where r = examplePatient and url = "''https://api.example.com''"
        and ms = exampleMatrices and ver = "''4.0.1''" and src = "observationOf ''o1'' ''Patient/123''"]
      ext own m1 m2 d3 m4
    by simp
qed

subsection \<open>Access decisions\<close>

text \<open>
  More scopes keep a true decision true. An identity supplied where there was none never
  turns a true decision into false: the decision stays true unless the walk for the new
  identity throws.
\<close>

lemma hasSystemAccess_mono:
  "set xs \<subseteq> set ys \<Longrightarrow> hasSystemAccess xs t \<Longrightarrow> hasSystemAccess ys t"
  by (auto simp add: hasSystemAccess_def list_ex_iff)

lemma orElse_True: "orElse (Inr True) b = Inr True"
  by (simp add: orElse_def)

lemma orElse_False: "orElse (Inr False) b = b"
  by (simp add: orElse_def)

lemma orElse_eq_True: "orElse a b = Inr True \<longleftrightarrow> a = Inr True \<or> (a = Inr False \<and> b = Inr True)"
  by (cases a) (auto simp add: orElse_def)

lemma orElse_eq_False: "orElse a b = Inr False \<longleftrightarrow> a = Inr False \<and> b = Inr False"
  by (cases a) (auto simp add: orElse_def)

lemma hasAccessToResource_more_scopes:
  assumes sub: "set xs \<subseteq> set ys"
    and before: "hasAccessToResource ms fu pc src xs adminTypes url ver = Inr True"
  shows "hasAccessToResource ms fu pc src ys adminTypes url ver = Inr True"
proof (cases "getProp src ''resourceType''")
  case (Inl e)
  with before show ?thesis by (simp add: hasAccessToResource_def)
next
  case (Inr t)
  show ?thesis
  proof (cases "hasSystemAccess ys (toString t)")
    case True
    then show ?thesis using Inr by (simp add: hasAccessToResource_def orElse_True)
  next
    case False
    with sub have "\<not> hasSystemAccess xs (toString t)"
      using hasSystemAccess_mono by blast
    with before False Inr show ?thesis
      by (simp add: hasAccessToResource_def orElse_False)
  qed
qed

lemma hasAccessToResource_more_identities:
  assumes sub: "set xs \<subseteq> set ys"
    and fu: "fu = None \<or> fu' = fu"
    and pc: "pc = None \<or> pc' = pc"
    and before: "hasAccessToResource ms fu pc src xs adminTypes url ver = Inr True"
  shows "hasAccessToResource ms fu' pc' src ys adminTypes url ver \<noteq> Inr False"
proof
  assume after: "hasAccessToResource ms fu' pc' src ys adminTypes url ver = Inr False"
  from hasAccessToResource_more_scopes [OF sub before]
  have b: "hasAccessToResource ms fu pc src ys adminTypes url ver = Inr True" .
  obtain t where t: "getProp src ''resourceType'' = Inr t"
    using b by (cases "getProp src ''resourceType''") (simp_all add: hasAccessToResource_def)
  from after t have nosys: "\<not> hasSystemAccess ys (toString t)"
    by (auto simp add: hasAccessToResource_def orElse_eq_False)
  from after t nosys have fu'F: "(case fu' of None \<Rightarrow> Inr False
      | Some r \<Rightarrow> orElse (Inr (isFhirUserAdmin r adminTypes url))
          (hasReferenceToResource ms r src url ver)) = Inr False"
    and pc'F: "(case pc' of None \<Rightarrow> Inr False
      | Some r \<Rightarrow> hasReferenceToResource ms r src url ver) = Inr False"
    by (simp_all add: hasAccessToResource_def orElse_eq_False)
  from fu fu'F have fuF: "(case fu of None \<Rightarrow> Inr False
      | Some r \<Rightarrow> orElse (Inr (isFhirUserAdmin r adminTypes url))
          (hasReferenceToResource ms r src url ver)) = Inr False"
    by auto
  from pc pc'F have pcF: "(case pc of None \<Rightarrow> Inr False
      | Some r \<Rightarrow> hasReferenceToResource ms r src url ver) = Inr False"
    by auto
  from b t nosys fuF pcF show False
    by (simp add: hasAccessToResource_def orElse_False)
qed

lemma hasAccessToResource_more_identities_returns:
  assumes "set xs \<subseteq> set ys" and "fu = None \<or> fu' = fu" and "pc = None \<or> pc' = pc"
    and "hasAccessToResource ms fu pc src xs adminTypes url ver = Inr True"
    and "hasAccessToResource ms fu' pc' src ys adminTypes url ver = Inr b"
  shows "b"
  using hasAccessToResource_more_identities [OF assms(1-4)] assms(5) by (cases b) auto

text \<open>
  C4 fails where the walk for the added identity throws: the patient context
  \<open>Patient/123\<close> alone has access to the patient resource \<open>123\<close> whose \<open>link\<close> array
  holds a \<open>null\<close>; with a \<open>RelatedPerson\<close> as fhirUser supplied in addition, the
  references of that type are searched along \<open>link.other\<close> first, and the decision is a
  \<open>TypeError\<close> instead of true.
\<close>

theorem hasAccessToResource_added_identity_throws:
  "hasAccessToResource exampleMatrices None (Some examplePatient) nullLinkPatient
     [''patient/Patient.read''] [''Practitioner''] ''https://api.example.com'' ''4.0.1'' = Inr True \<and>
   hasAccessToResource exampleMatrices (Some relatedPerson) (Some examplePatient) nullLinkPatient
     [''patient/Patient.read''] [''Practitioner''] ''https://api.example.com'' ''4.0.1'' = Inl TypeError"
  by code_simp

subsection \<open>Bundles\<close>

lemma isWriteRequestAuthorized_iff:
  "isWriteRequestAuthorized ms h userIdentity resourceBody requestBaseUrl = Inr () \<longleftrightarrow>
   hasAccessToResource ms (fhirUserObject userIdentity) (patientLaunchContext userIdentity)
     resourceBody (usableScopes userIdentity) (adminAccessTypes h)
     (case requestBaseUrl of Some u \<Rightarrow> u | None \<Rightarrow> apiUrl h) (fhirVersion h) = Inr True"
  by (simp add: isWriteRequestAuthorized_def split: sum.splits)

text \<open>
  C5: if some mutating entry of the bundle (operation create, update, patch or delete)
  fails the access check on its resource, made with the scopes recomputed for the bundle,
  \<open>isBundleRequestAuthorized\<close> rejects the bundle with the one denial, whatever the
  other entries are.
\<close>

theorem isBundleRequestAuthorized_all_or_nothing:
  "req \<in> set requests \<Longrightarrow>
   req_operation req \<in> set [''create'', ''update'', ''patch'', ''delete''] \<Longrightarrow>
   hasAccessToResource ms (fhirUserObject userIdentity) (patientLaunchContext userIdentity)
     (req_resource req) (bundleUsableScopes userIdentity) (adminAccessTypes h)
     (case requestBaseUrl of Some u \<Rightarrow> u | None \<Rightarrow> apiUrl h) (fhirVersion h) \<noteq> Inr True \<Longrightarrow>
   isBundleRequestAuthorized sh ms h userIdentity requests requestBaseUrl =
     Inl (UnauthorizedError ''An entry within the Bundle is not authorized'')"
proof -
  assume mem: "req \<in> set requests"
    and op: "req_operation req \<in> set [''create'', ''update'', ''patch'', ''delete'']"
    and deny: "hasAccessToResource ms (fhirUserObject userIdentity) (patientLaunchContext userIdentity)
     (req_resource req) (bundleUsableScopes userIdentity) (adminAccessTypes h)
     (case requestBaseUrl of Some u \<Rightarrow> u | None \<Rightarrow> apiUrl h) (fhirVersion h) \<noteq> Inr True"
  have "isWriteRequestAuthorized ms h (userIdentity\<lparr>usableScopes := bundleUsableScopes userIdentity\<rparr>)
          (req_resource req) requestBaseUrl \<noteq> Inr ()"
    using deny by (simp add: isWriteRequestAuthorized_iff)
  then have "isl (authWritePromise ms h userIdentity (bundleUsableScopes userIdentity) requestBaseUrl req)"
    using op by (cases "isWriteRequestAuthorized ms h (userIdentity\<lparr>usableScopes := bundleUsableScopes userIdentity\<rparr>)
          (req_resource req) requestBaseUrl") (auto simp add: authWritePromise_def)
  with mem have "list_ex (\<lambda>r. isl (authWritePromise ms h userIdentity (bundleUsableScopes userIdentity) requestBaseUrl r)) requests"
    by (auto simp add: list_ex_iff)
  then show ?thesis
    by (simp add: isBundleRequestAuthorized_def Let_def)
qed

theorem isBundleRequestAuthorized_all_or_nothing_witness:
  "authWritePromise exampleMatrices exampleHandler patientIdentity (bundleUsableScopes patientIdentity)
     None (exampleBundle ! 0) = Inr () \<and>
   authWritePromise exampleMatrices exampleHandler patientIdentity (bundleUsableScopes patientIdentity)
     None (exampleBundle ! 2) = Inr () \<and>
   list_all (entryScopeSufficient exampleScopeHelper exampleHandler (bundleUsableScopes patientIdentity))
     exampleBundle \<and>
   isBundleRequestAuthorized exampleScopeHelper exampleMatrices exampleHandler patientIdentity
     exampleBundle None = Inl (UnauthorizedError ''An entry within the Bundle is not authorized'')"
proof -
  have mem: "exampleBundle ! 1 \<in> set exampleBundle"
    by (simp add: exampleBundle_def)
  have op: "req_operation (exampleBundle ! 1) \<in> set [''create'', ''update'', ''patch'', ''delete'']"
    by (simp add: exampleBundle_def)
  have deny: "hasAccessToResource exampleMatrices (fhirUserObject patientIdentity)
     (patientLaunchContext patientIdentity) (req_resource (exampleBundle ! 1))
     (bundleUsableScopes patientIdentity) (adminAccessTypes exampleHandler)
     (case None of Some u \<Rightarrow> u | None \<Rightarrow> apiUrl exampleHandler) (fhirVersion exampleHandler) \<noteq> Inr True"
    by code_simp
  have p0: "authWritePromise exampleMatrices exampleHandler patientIdentity (bundleUsableScopes patientIdentity)
     None (exampleBundle ! 0) = Inr ()"
    by code_simp
  have p2: "authWritePromise exampleMatrices exampleHandler patientIdentity (bundleUsableScopes patientIdentity)
     None (exampleBundle ! 2) = Inr ()"
    by code_simp
  have suff: "list_all (entryScopeSufficient exampleScopeHelper exampleHandler (bundleUsableScopes patientIdentity))
     exampleBundle"
    by code_simp
  show ?thesis
    using isBundleRequestAuthorized_all_or_nothing [OF mem op deny, where sh = exampleScopeHelper] p0 p2 suff
    by simp
qed

subsection \<open>Token decoding\<close>

text \<open>
  C8: for a token that decodes and whose \<open>iss\<close> claim is not the expected issuer,
  decoding fails with the denial \<open>Invalid access token\<close>, and so do signature
  verification and introspection, whatever the key lookup, the signature check and the
  introspection call would answer.
\<close>

theorem decodeJwtToken_issuer_mismatch:
  "jwt_decode libs token = DecodedJwt decoded \<Longrightarrow>
   getField (payloadValue (jwt_payload decoded)) ''iss'' \<noteq> JStr expectedIss \<Longrightarrow>
   decodeJwtToken libs token expectedAud expectedIss = Inl (UnauthorizedError ''Invalid access token'') \<and>
   verifyJwtToken libs token expectedAud expectedIss client =
     Inl (UnauthorizedError ''Invalid access token'') \<and>
   introspectJwtToken libs token expectedAud expectedIss introspectionOptions =
     Inl (UnauthorizedError ''Invalid access token'')"
  by (simp add: decodeJwtToken_def verifyJwtToken_def introspectJwtToken_def strictEqStr_def
      GENERIC_ERR_MESSAGE_def Let_def)

theorem decodeJwtToken_issuer_mismatch_witness:
  "jwt_verify (acceptingLibraries exampleToken) ''token'' ''public-key'' (AudString ''api://default'')
      ''https://idp.example.com'' = Inr (jwt_payload exampleToken) \<and>
   decodeJwtToken (acceptingLibraries exampleToken) ''token'' (AudString ''api://default'')
      ''https://idp.example.com'' = Inl (UnauthorizedError ''Invalid access token'') \<and>
   verifyJwtToken (acceptingLibraries exampleToken) ''token'' (AudString ''api://default'')
      ''https://idp.example.com'' ''https://idp.example.com/keys'' =
      Inl (UnauthorizedError ''Invalid access token'') \<and>
   introspectJwtToken (acceptingLibraries exampleToken) ''token'' (AudString ''api://default'')
      ''https://idp.example.com''
      \<lparr>introspectUrl = ''https://idp.example.com/introspect'', clientId = ''id'', clientSecret = ''secret''\<rparr> =
      Inl (UnauthorizedError ''Invalid access token'')"
  using decodeJwtToken_issuer_mismatch [where libs = "acceptingLibraries exampleToken"
      and token = "''token''" and decoded = exampleToken and expectedIss = "''https://idp.example.com''"
      and expectedAud = "AudString ''api://default''" and client = "''https://idp.example.com/keys''"
      and introspectionOptions = "\<lparr>introspectUrl = ''https://idp.example.com/introspect'', clientId = ''id'', clientSecret = ''secret''\<rparr>"]
  by (simp add: acceptingLibraries_def exampleToken_def payloadValue_def)

subsection \<open>Search responses\<close>

text \<open>
  With an entry list and a total that is a number other than zero, the total returned
  is the reported one less the number of entries dropped.
\<close>

lemma authorizeAndFilterReadResponse_total:
  assumes search: "operation \<in> set (SEARCH_OPERATIONS sh)"
    and entry: "readResponse = JObj kvs" "map_of kvs ''entry'' = Some (JArr all)"
    and filtered: "filterE
        (\<lambda>x. case getProp x ''resource'' of
               Inl e \<Rightarrow> Inl e
             | Inr r \<Rightarrow>
                 hasAccessToResource ms (fhirUserObject userIdentity)
                   (patientLaunchContext userIdentity) r (usableScopes userIdentity)
                   (adminAccessTypes h) (case requestBaseUrl of Some u \<Rightarrow> u | None \<Rightarrow> apiUrl h)
                   (fhirVersion h))
        all = Inr entries"
    and total: "map_of kvs ''total'' = Some (JNum n)" "n \<noteq> 0"
  shows "authorizeAndFilterReadResponse libs sh ms h userIdentity operation readResponse requestBaseUrl =
     Inr (JObj (setProperty (setProperty kvs ''entry'' (JArr entries)) ''total''
                  (JNum (n - (int (length all) - int (length entries))))))"
  using assms
  by (simp add: authorizeAndFilterReadResponse_def Let_def entryList_def entryLength_def spread_def
      minusTotal_def)

text \<open>
  C10: for a search operation and a read response without an \<open>entry\<close> field, a truthy
  \<open>total\<close> makes \<open>authorizeAndFilterReadResponse\<close> throw a \<open>TypeError\<close>; with
  \<open>total\<close> absent or zero it returns the response with an empty entry list and the
  filtered count, zero, as total.
\<close>

theorem authorizeAndFilterReadResponse_missing_entry:
  "operation \<in> set (SEARCH_OPERATIONS sh) \<Longrightarrow>
   readResponse = JObj kvs \<Longrightarrow>
   map_of kvs ''entry'' = None \<Longrightarrow>
   (truthy (getField readResponse ''total'') \<longrightarrow>
      authorizeAndFilterReadResponse libs sh ms h userIdentity operation readResponse requestBaseUrl =
        Inl TypeError) \<and>
   (map_of kvs ''total'' = None \<or> map_of kvs ''total'' = Some (JNum 0) \<longrightarrow>
      authorizeAndFilterReadResponse libs sh ms h userIdentity operation readResponse requestBaseUrl =
        Inr (JObj (setProperty (setProperty kvs ''entry'' (JArr [])) ''total'' (JNum 0))))"
  by (auto simp add: authorizeAndFilterReadResponse_def Let_def entryList_def entryLength_def spread_def)

theorem authorizeAndFilterReadResponse_missing_entry_witness:
  "authorizeAndFilterReadResponse (acceptingLibraries exampleToken) exampleScopeHelper exampleMatrices
     exampleHandler patientIdentity ''search-type''
     (JObj [(''resourceType'', JStr ''Bundle''), (''type'', JStr ''searchset''), (''total'', JNum 3)])
     None = Inl TypeError \<and>
   authorizeAndFilterReadResponse (acceptingLibraries exampleToken) exampleScopeHelper exampleMatrices
     exampleHandler patientIdentity ''search-type''
     (JObj [(''resourceType'', JStr ''Bundle''), (''type'', JStr ''searchset''), (''total'', JNum 0)])
     None =
     Inr (JObj [(''resourceType'', JStr ''Bundle''), (''type'', JStr ''searchset''), (''total'', JNum 0),
                (''entry'', JArr [])])"
  using authorizeAndFilterReadResponse_missing_entry [where sh = exampleScopeHelper
      and operation = "''search-type''" and libs = "acceptingLibraries exampleToken"
      and ms = exampleMatrices and h = exampleHandler and userIdentity = patientIdentity
      and requestBaseUrl = None
      and kvs = "[(''resourceType'', JStr ''Bundle''), (''type'', JStr ''searchset''), (''total'', JNum 3)]"
      and readResponse = "JObj [(''resourceType'', JStr ''Bundle''), (''type'', JStr ''searchset''), (''total'', JNum 3)]"]
    authorizeAndFilterReadResponse_missing_entry [where sh = exampleScopeHelper
      and operation = "''search-type''" and libs = "acceptingLibraries exampleToken"
      and ms = exampleMatrices and h = exampleHandler and userIdentity = patientIdentity
      and requestBaseUrl = None
      and kvs = "[(''resourceType'', JStr ''Bundle''), (''type'', JStr ''searchset''), (''total'', JNum 0)]"
      and readResponse = "JObj [(''resourceType'', JStr ''Bundle''), (''type'', JStr ''searchset''), (''total'', JNum 0)]"]
  by (simp add: exampleScopeHelper_def)

subsection \<open>Token verification\<close>

text \<open>
  A token that passes the configured check and leaves no usable scope is denied. When the
  decoded claims hold no property named \<open>fhirUserObject\<close> or \<open>patientLaunchContext\<close>,
  the returned identity has the first only if the fhirUser claim is truthy and a usable
  scope starts with \<open>user/\<close>, and the second only if the patient-context claim is truthy
  and a usable scope starts with \<open>patient/\<close>.
\<close>

lemma map_of_setProperty: "map_of (setProperty kvs k v) = (map_of kvs)(k \<mapsto> v)"
  by (induction kvs) auto

lemma verifyAccessToken_no_usable_scope:
  assumes "decodeToken libs h accessToken = Inr decodedToken"
    and "filterOutUnusableScope sh
           (getScopes sh (getField (payloadValue decodedToken) (scopeKey (config h))))
           (scopeRule (config h)) operation (isUserScopeAllowedForSystemExport h) requestResourceType
           bulkDataAuth
           (lodash_get libs decodedToken (launchContextPathPrefix (config h) @ ''patient''))
           (lodash_get libs decodedToken (fhirUserClaimPath (config h))) = []"
  shows "verifyAccessToken libs sh h accessToken operation requestResourceType bulkDataAuth
           requestBaseUrl =
         Inl (UnauthorizedError ''access_token does not have permission for requested operation'')"
  using assms by (simp add: verifyAccessToken_def Let_def)

lemma assign_object:
  "assign ui k v = Inr ui' \<Longrightarrow>
   \<exists>kvs. ui = PayloadObject kvs \<and> ui' = PayloadObject (setProperty kvs k v)"
  by (cases ui) (auto simp add: assign_def)

lemma attachFhirUser_object:
  assumes "attachFhirUser (PayloadObject kvs) claim usable = Inr ui'"
  shows "\<exists>kvs'. ui' = PayloadObject kvs' \<and>
           map_of kvs' ''patientLaunchContext'' = map_of kvs ''patientLaunchContext'' \<and>
           (map_of kvs' ''fhirUserObject'' = map_of kvs ''fhirUserObject'' \<or>
            (truthy claim \<and> list_ex (\<lambda>scope. startsWith scope ''user/'') usable))"
  using assms
  by (auto simp add: attachFhirUser_def assign_def map_of_setProperty split: if_splits sum.splits)

lemma attachPatientContext_object:
  assumes "attachPatientContext (PayloadObject kvs) claim usable url = Inr ui'"
  shows "\<exists>kvs'. ui' = PayloadObject kvs' \<and>
           map_of kvs' ''fhirUserObject'' = map_of kvs ''fhirUserObject'' \<and>
           (map_of kvs' ''patientLaunchContext'' = map_of kvs ''patientLaunchContext'' \<or>
            (truthy claim \<and> list_ex (\<lambda>scope. startsWith scope ''patient/'') usable))"
  using assms
  by (auto simp add: attachPatientContext_def assign_def map_of_setProperty split: if_splits sum.splits)

lemma verifyAccessToken_attaches_only_if:
  assumes decoded: "decodeToken libs h accessToken = Inr (PayloadObject kvs)"
    and fresh: "map_of kvs ''fhirUserObject'' = None" "map_of kvs ''patientLaunchContext'' = None"
    and returned: "verifyAccessToken libs sh h accessToken operation requestResourceType bulkDataAuth
           requestBaseUrl = Inr (PayloadObject out)"
    and usable: "usable = filterOutUnusableScope sh
           (getScopes sh (getField (JObj kvs) (scopeKey (config h))))
           (scopeRule (config h)) operation (isUserScopeAllowedForSystemExport h) requestResourceType
           bulkDataAuth
           (lodash_get libs (PayloadObject kvs) (launchContextPathPrefix (config h) @ ''patient''))
           (lodash_get libs (PayloadObject kvs) (fhirUserClaimPath (config h)))"
  shows "(map_of out ''fhirUserObject'' \<noteq> None \<longrightarrow>
            truthy (lodash_get libs (PayloadObject kvs) (fhirUserClaimPath (config h))) \<and>
            list_ex (\<lambda>scope. startsWith scope ''user/'') usable) \<and>
         (map_of out ''patientLaunchContext'' \<noteq> None \<longrightarrow>
            truthy (lodash_get libs (PayloadObject kvs) (launchContextPathPrefix (config h) @ ''patient'')) \<and>
            list_ex (\<lambda>scope. startsWith scope ''patient/'') usable)"
proof -
  let ?fu = "lodash_get libs (PayloadObject kvs) (fhirUserClaimPath (config h))"
  let ?pc = "lodash_get libs (PayloadObject kvs) (launchContextPathPrefix (config h) @ ''patient'')"
  let ?url = "case requestBaseUrl of Some u \<Rightarrow> u | None \<Rightarrow> apiUrl h"
  let ?all = "getScopes sh (getField (JObj kvs) (scopeKey (config h)))"
  from returned decoded usable obtain ui1 ui2 ui3 where
    a1: "attachFhirUser (PayloadObject kvs) ?fu usable = Inr ui1"
    and a2: "attachPatientContext ui1 ?pc usable ?url = Inr ui2"
    and a3: "assign ui2 ''scopes'' (JArr (map JStr ?all)) = Inr ui3"
    and a4: "assign ui3 ''usableScopes'' (JArr (map JStr usable)) = Inr (PayloadObject out)"
    by (auto simp add: verifyAccessToken_def Let_def clone_def payloadValue_def
        split: if_splits sum.splits)
  from attachFhirUser_object [OF a1] obtain k1 where
    k1: "ui1 = PayloadObject k1"
    "map_of k1 ''patientLaunchContext'' = map_of kvs ''patientLaunchContext''"
    "map_of k1 ''fhirUserObject'' = map_of kvs ''fhirUserObject'' \<or>
       (truthy ?fu \<and> list_ex (\<lambda>scope. startsWith scope ''user/'') usable)"
    by blast
  from attachPatientContext_object [OF a2 [unfolded k1(1)]] obtain k2 where
    k2: "ui2 = PayloadObject k2"
    "map_of k2 ''fhirUserObject'' = map_of k1 ''fhirUserObject''"
    "map_of k2 ''patientLaunchContext'' = map_of k1 ''patientLaunchContext'' \<or>
       (truthy ?pc \<and> list_ex (\<lambda>scope. startsWith scope ''patient/'') usable)"
    by blast
  from assign_object [OF a3] k2(1) have k3: "ui3 = PayloadObject (setProperty k2 ''scopes'' (JArr (map JStr ?all)))"
    by auto
  from assign_object [OF a4] k3 have out:
    "out = setProperty (setProperty k2 ''scopes'' (JArr (map JStr ?all))) ''usableScopes''
       (JArr (map JStr usable))"
    by auto
  have "map_of out ''fhirUserObject'' = map_of k2 ''fhirUserObject''"
    and "map_of out ''patientLaunchContext'' = map_of k2 ''patientLaunchContext''"
    by (simp_all add: out map_of_setProperty)
  with k1 k2 fresh show ?thesis
    by auto
qed

text \<open>
  C7 fails for a token that itself has a claim named \<open>fhirUserObject\<close>: the identity is
  a copy of the decoded claims, so it is returned carrying that property although the
  token has no fhirUser claim and its only usable scope is a patient scope.
\<close>

theorem verifyAccessToken_carries_token_claim:
  "verifyAccessToken (acceptingLibraries injectedToken) exampleScopeHelper exampleHandler ''token''
     ''read'' (Some ''Observation'') Undefined None =
     Inr (PayloadObject
        [(''iss'', JStr ''https://idp.example.com''), (''aud'', JStr ''api://default''),
         (''scp'', JArr [JStr ''patient/Observation.read'']),
         (''launch_response_patient'', JStr ''Patient/123''),
         (''fhirUserObject'',
            JObj [(''hostname'', JStr ''https://api.example.com''),
                  (''resourceType'', JStr ''Practitioner''), (''id'', JStr ''dr1'')]),
         (''patientLaunchContext'',
            JObj [(''hostname'', JStr ''https://api.example.com''),
                  (''resourceType'', JStr ''Patient''), (''id'', JStr ''123'')]),
         (''scopes'', JArr [JStr ''patient/Observation.read'']),
         (''usableScopes'', JArr [JStr ''patient/Observation.read''])]) \<and>
   lodash_get (acceptingLibraries injectedToken) (jwt_payload injectedToken)
     (fhirUserClaimPath (config exampleHandler)) = Undefined"
  by code_simp

end
